theory Spec2Isabelle
  imports Main "HOL-Library.Multiset"
begin

section \<open>Data model (types.ts)\<close>

text \<open>
  The closed enumeration of backing services, with the string each member stands for.
\<close>

datatype AIProvider = GEMINI | GROQ | MISTRAL | CEREBRAS

fun aiNameString :: "AIProvider \<Rightarrow> string" where
  "aiNameString GEMINI = ''gemini''"
| "aiNameString GROQ = ''groq''"
| "aiNameString MISTRAL = ''mistral''"
| "aiNameString CEREBRAS = ''cerebras''"

text \<open>The two values of \<^verbatim>\<open>lastFailureType\<close>: \<^verbatim>\<open>'retryable' | 'non-retryable'\<close>.\<close>

datatype FailureType = Retryable | NonRetryable

text \<open>
  What a field declared \<^verbatim>\<open>number\<close> or \<^verbatim>\<open>number | undefined\<close> can hold while the program
  runs. Priorities, timeouts and status codes are integers. \<^verbatim>\<open>Undefined\<close> reaches
  \<^verbatim>\<open>priority\<close> through the assignment \<^verbatim>\<open>provider.priority = provider.originalPriority!\<close>
  (the \<^verbatim>\<open>!\<close> is erased at run time), and \<^verbatim>\<open>NaN\<close> through \<^verbatim>\<open>+=\<close> on such a priority.
\<close>

datatype number = Number int | Undefined | NaN

text \<open>
  A JavaScript number is an IEEE 754 double, and \<open>Number x\<close> is the double of integer value
  \<open>x\<close>. Every integer of magnitude up to \<open>2\<^sup>5\<^sup>3 = 9007199254740992\<close> is a double. Beyond
  that a double keeps 53 significant bits, and the sum of two doubles is their exact sum
  rounded to the nearest double, a tie going to the even 53-bit mantissa.
  \<open>roundToDouble\<close> is that rounding of an integer. The largest double is below
  \<open>2\<^sup>1\<^sup>0\<^sup>2\<^sup>4\<close> and an array length is below \<open>2\<^sup>3\<^sup>2\<close>, so a double plus an array length
  never rounds to \<^verbatim>\<open>Infinity\<close>. Only integers that are doubles occur as the content of a
  field.
\<close>

function bitLength :: "int \<Rightarrow> nat" where
  "bitLength m = (if m \<le> 0 then 0 else Suc (bitLength (m div 2)))"
  by pat_completeness auto
termination
  by (relation "measure nat") auto

declare bitLength.simps [simp del]

definition roundToDouble :: "int \<Rightarrow> int" where
  "roundToDouble z =
     (if \<bar>z\<bar> \<le> 9007199254740992 then z
      else
        (let e = bitLength \<bar>z\<bar> - 53;
             q = \<bar>z\<bar> div 2 ^ e;
             r = \<bar>z\<bar> mod 2 ^ e;
             q' = (if 2 * r > 2 ^ e \<or> (2 * r = 2 ^ e \<and> odd q) then q + 1 else q)
         in sgn z * q' * 2 ^ e))"

text \<open>\<^verbatim>\<open>Number.MAX_SAFE_INTEGER\<close> and \<^verbatim>\<open>Number.isSafeInteger\<close>, for integers.\<close>

definition MAX_SAFE_INTEGER :: int where
  "MAX_SAFE_INTEGER = 9007199254740991"

definition isSafeInteger :: "int \<Rightarrow> bool" where
  "isSafeInteger x \<longleftrightarrow> \<bar>x\<bar> \<le> MAX_SAFE_INTEGER"

text \<open>
  \<^verbatim>\<open>a - b\<close> is met only in the comparator of the sort, which reads the sign of the result
  and nothing else. The difference of two doubles has the sign of their exact difference,
  so the subtraction is kept exact.
\<close>

fun jsMinus :: "number \<Rightarrow> number \<Rightarrow> number" where
  "jsMinus (Number x) (Number y) = Number (x - y)"
| "jsMinus _ _ = NaN"

text \<open>\<^verbatim>\<open>a += n\<close> for an array length \<open>n\<close>: the sum, rounded as a double.\<close>

fun jsPlus :: "number \<Rightarrow> int \<Rightarrow> number" where
  "jsPlus (Number x) n = Number (roundToDouble (x + n))"
| "jsPlus _ n = NaN"

text \<open>Loose inequality \<^verbatim>\<open>a != b\<close> on such values: \<^verbatim>\<open>NaN\<close> differs from everything.\<close>

fun jsNotEqual :: "number \<Rightarrow> number \<Rightarrow> bool" where
  "jsNotEqual (Number x) (Number y) = (x \<noteq> y)"
| "jsNotEqual Undefined Undefined = False"
| "jsNotEqual _ _ = True"

text \<open>Nullish coalescing \<^verbatim>\<open>a ?? b\<close>.\<close>

fun jsCoalesce :: "number \<Rightarrow> number \<Rightarrow> number" where
  "jsCoalesce Undefined b = b"
| "jsCoalesce a b = a"

text \<open>The relation \<^verbatim>\<open>a <= b\<close>: false as soon as one side is not a number.\<close>

fun jsLessEq :: "number \<Rightarrow> number \<Rightarrow> bool" where
  "jsLessEq (Number x) (Number y) = (x \<le> y)"
| "jsLessEq _ _ = False"

fun isNumber :: "number \<Rightarrow> bool" where
  "isNumber (Number x) = True"
| "isNumber _ = False"

text \<open>Remote payloads are opaque: a JSON value is kept as its text.\<close>

datatype json = JsonText string

record Provider =
  aiName :: AIProvider
  apiKey :: string
  model :: string
  priority :: number
  originalPriority :: number
  lastFailureTime :: "int option"
  lastFailureType :: "FailureType option"
  parameters :: "(string \<times> json) list option"

text \<open>
  \<^verbatim>\<open>FallbackAIOptions\<close> as the caller passes it (every field optional) and
  \<^verbatim>\<open>Required<FallbackAIOptions>\<close> as the instance keeps it.
\<close>

record FallbackAIOptions =
  enablePriorityUpdates_opt :: "bool option"
  timeout_opt :: "int option"
  retryableCodes_opt :: "int list option"
  retryableErrorTimeout_opt :: "int option"
  nonRetryableErrorTimeout_opt :: "int option"

record Options =
  enablePriorityUpdates :: bool
  timeout :: int
  retryableCodes :: "int list"
  retryableErrorTimeout :: int
  nonRetryableErrorTimeout :: int

text \<open>
  Providers are objects shared by reference between the registry's array, the list of
  providers queued for demotion and the caller. The store maps a reference to the object
  it denotes; arrays hold references.
\<close>

type_synonym ref = nat
type_synonym heap = "ref \<Rightarrow> Provider"

section \<open>Priority scheduler (priority.ts)\<close>

text \<open>
  \<^verbatim>\<open>providers.sort((a, b) => a.priority - b.priority)\<close>. The comparator's result goes
  through ECMAScript's SortCompare, which reads \<^verbatim>\<open>NaN\<close> as \<open>+0\<close>. The sort is stable;
  it is written as an insertion from the right, which is the stable order whenever the
  comparator is consistent, that is whenever every priority is a number. With a priority
  that is not a number ECMAScript leaves the order to the implementation, and the
  theorems about order below are stated for numeric priorities.
\<close>

definition compareFn :: "Provider \<Rightarrow> Provider \<Rightarrow> number" where
  "compareFn a b = jsMinus (priority a) (priority b)"

definition sortCompare :: "heap \<Rightarrow> ref \<Rightarrow> ref \<Rightarrow> int" where
  "sortCompare h a b = (case compareFn (h a) (h b) of Number v \<Rightarrow> v | _ \<Rightarrow> 0)"

fun insertProvider :: "heap \<Rightarrow> ref \<Rightarrow> ref list \<Rightarrow> ref list" where
  "insertProvider h x [] = [x]"
| "insertProvider h x (y # ys) =
     (if sortCompare h x y \<le> 0 then x # y # ys else y # insertProvider h x ys)"

fun sortProviders :: "heap \<Rightarrow> ref list \<Rightarrow> ref list" where
  "sortProviders h [] = []"
| "sortProviders h (x # xs) = insertProvider h x (sortProviders h xs)"

text \<open>
  \<^verbatim>\<open>updateProviderPriorities\<close>: the loop adds \<^verbatim>\<open>providers.length\<close> to the priority of
  each queued object in turn (an object queued twice is raised twice), then the array is
  sorted.
\<close>

definition addToPriority :: "nat \<Rightarrow> ref \<Rightarrow> heap \<Rightarrow> heap" where
  "addToPriority n r h = h(r := (h r)\<lparr>priority := jsPlus (priority (h r)) (int n)\<rparr>)"

fun raisePriorities :: "nat \<Rightarrow> ref list \<Rightarrow> heap \<Rightarrow> heap" where
  "raisePriorities n [] h = h"
| "raisePriorities n (r # rs) h = raisePriorities n rs (addToPriority n r h)"

definition updateProviderPriorities :: "heap \<Rightarrow> ref list \<Rightarrow> ref list \<Rightarrow> heap \<times> ref list" where
  "updateProviderPriorities h providers providersToUpdate =
     (let h' = raisePriorities (length providers) providersToUpdate h
      in (h', sortProviders h' providers))"

text \<open>
  The guard \<^verbatim>\<open>!provider.lastFailureTime || !provider.lastFailureType\<close> reads both fields
  through JavaScript truthiness: an absent field is falsy, and so is the number 0. Both
  strings of \<^verbatim>\<open>lastFailureType\<close> are truthy.
\<close>

fun truthyTime :: "int option \<Rightarrow> bool" where
  "truthyTime None = False"
| "truthyTime (Some t) = (t \<noteq> 0)"

fun truthyType :: "FailureType option \<Rightarrow> bool" where
  "truthyType None = False"
| "truthyType (Some k) = True"

text \<open>
  The three statements both recovery functions end with:
  \<^verbatim>\<open>provider.priority = provider.originalPriority!\<close> and the two \<^verbatim>\<open>delete\<close>s.
\<close>

definition resetPriority :: "Provider \<Rightarrow> Provider" where
  "resetPriority provider =
     provider\<lparr>priority := originalPriority provider,
              lastFailureTime := None, lastFailureType := None\<rparr>"

text \<open>
  \<^verbatim>\<open>checkAndRecoverPriority(provider, options)\<close>; \<open>now\<close> is what \<^verbatim>\<open>Date.now()\<close> returns,
  read only past the guard.
\<close>

definition checkAndRecoverPriority :: "int \<Rightarrow> Provider \<Rightarrow> Options \<Rightarrow> Provider" where
  "checkAndRecoverPriority now provider options =
     (if \<not> truthyTime (lastFailureTime provider) \<or> \<not> truthyType (lastFailureType provider)
      then provider
      else
        (case lastFailureTime provider of
           None \<Rightarrow> provider
         | Some t \<Rightarrow>
             (let timeSinceFailure = now - t;
                  shouldRecover =
                    (if lastFailureType provider = Some Retryable
                     then timeSinceFailure > retryableErrorTimeout options
                     else timeSinceFailure > nonRetryableErrorTimeout options)
              in if shouldRecover then resetPriority provider else provider)))"

definition recoverPriorityOnSuccess :: "Provider \<Rightarrow> Provider" where
  "recoverPriorityOnSuccess provider =
     (if truthyTime (lastFailureTime provider) \<and> truthyType (lastFailureType provider)
      then resetPriority provider
      else provider)"

section \<open>Client (index.ts)\<close>

definition RETRYABLE_CODES :: "int list" where
  "RETRYABLE_CODES = [429, 500]"

text \<open>The instance: \<^verbatim>\<open>this.providers\<close> is an array of references, \<^verbatim>\<open>this.options\<close> the
  options with their defaults filled in.\<close>

record FallbackAI =
  providers :: "ref list"
  options :: Options

definition resolveOptions :: "FallbackAIOptions \<Rightarrow> Options" where
  "resolveOptions opts =
     \<lparr>enablePriorityUpdates =
        (case enablePriorityUpdates_opt opts of None \<Rightarrow> True | Some b \<Rightarrow> b),
      timeout = (case timeout_opt opts of None \<Rightarrow> 30000 | Some t \<Rightarrow> t),
      retryableCodes =
        (case retryableCodes_opt opts of None \<Rightarrow> RETRYABLE_CODES | Some cs \<Rightarrow> cs),
      retryableErrorTimeout =
        (case retryableErrorTimeout_opt opts of None \<Rightarrow> 300000 | Some t \<Rightarrow> t),
      nonRetryableErrorTimeout =
        (case nonRetryableErrorTimeout_opt opts of None \<Rightarrow> 1800000 | Some t \<Rightarrow> t)\<rparr>"

text \<open>
  The constructor copies every provider it is given into a new object,
  \<^verbatim>\<open>{...provider, originalPriority: provider.originalPriority ?? provider.priority}\<close>,
  and sorts the new array. \<open>fresh\<close> is the first address the allocator hands out; the
  copies take \<open>fresh\<close>, \<open>fresh + 1\<close>, and so on.
\<close>

definition withOriginalPriority :: "Provider \<Rightarrow> Provider" where
  "withOriginalPriority p =
     p\<lparr>originalPriority := jsCoalesce (originalPriority p) (priority p)\<rparr>"

fun allocate :: "ref \<Rightarrow> Provider list \<Rightarrow> heap \<Rightarrow> heap" where
  "allocate a [] h = h"
| "allocate a (p # ps) h = allocate (Suc a) ps (h(a := p))"

definition new_FallbackAI ::
  "heap \<Rightarrow> ref \<Rightarrow> Provider list \<Rightarrow> FallbackAIOptions \<Rightarrow> string + heap \<times> FallbackAI" where
  "new_FallbackAI h fresh ps opts =
     (if ps = [] then Inl ''At least one provider must be specified''
      else
        (let copies = map withOriginalPriority ps;
             h' = allocate fresh copies h
         in Inr (h', \<lparr>providers = sortProviders h' [fresh ..< fresh + length copies],
                      options = resolveOptions opts\<rparr>)))"

definition getProviders :: "FallbackAI \<Rightarrow> ref list" where
  "getProviders ai = providers ai"

text \<open>\<^verbatim>\<open>addProvider\<close> pushes the caller's object itself, then sorts.\<close>

definition addProvider :: "heap \<Rightarrow> FallbackAI \<Rightarrow> ref \<Rightarrow> FallbackAI" where
  "addProvider h ai r = ai\<lparr>providers := sortProviders h (providers ai @ [r])\<rparr>"

text \<open>\<^verbatim>\<open>removeProvider\<close> splices out the first entry that is the same object.\<close>

definition removeProvider :: "FallbackAI \<Rightarrow> ref \<Rightarrow> FallbackAI" where
  "removeProvider ai r = ai\<lparr>providers := remove1 r (providers ai)\<rparr>"

subsection \<open>One provider call\<close>

text \<open>
  What the request to a provider comes to, as far as \<^verbatim>\<open>makeProviderCall\<close> looks at it:
  \<^item> \<open>Ok body\<close>: \<^verbatim>\<open>response.ok\<close>, and \<^verbatim>\<open>response.json()\<close> gives an object with the
    properties \<open>body\<close>;
  \<^item> \<open>NotOk status msg errorObj\<close>: not \<^verbatim>\<open>response.ok\<close>, with \<^verbatim>\<open>response.status\<close>,
    the text of \<^verbatim>\<open>errorObj?.error?.message\<close> when there is one, and \<^verbatim>\<open>errorObj\<close>, the parsed
    body (its first element if it is an array, \<^verbatim>\<open>{}\<close> if it does not parse). A message is
    read from the error object, so it comes with one;
  \<^item> \<open>Rejects m\<close>: \<^verbatim>\<open>fetch\<close> or \<^verbatim>\<open>response.json()\<close> rejects (network error, abort on
    timeout) with an error of message \<open>m\<close>, which has no \<^verbatim>\<open>statusCode\<close>.
  The request body and the HTTP exchange itself are outside the model.
\<close>

datatype FetchOutcome =
    Ok "string \<rightharpoonup> json"
  | NotOk int "string option" "json option"
  | Rejects string

text \<open>
  The error object \<^verbatim>\<open>makeProviderCall\<close> throws, and \<^verbatim>\<open>AIError\<close>. Other properties a
  thrown error may own, which \<^verbatim>\<open>...error\<close> would copy into the \<^verbatim>\<open>AIError\<close>, are left out.
\<close>

record ThrownError =
  errMessage :: string
  errStatusCode :: "int option"
  errErrorBody :: "json option"

record AIError =
  message :: string
  provider :: AIProvider
  statusCode :: "int option"
  retryable :: bool
  errorBody :: "json option"

definition orUnknown :: "string \<Rightarrow> string" where
  "orUnknown s = (if s = [] then ''Unknown error'' else s)"

definition makeProviderCall ::
  "Options \<Rightarrow> Provider \<Rightarrow> FetchOutcome \<Rightarrow> ThrownError + (string \<rightharpoonup> json)" where
  "makeProviderCall opts p outcome =
     (case outcome of
        Ok body \<Rightarrow> Inr body
      | NotOk status msg errorObj \<Rightarrow>
          (let isRetryable = (status \<in> set (retryableCodes opts))
           in Inl \<lparr>errMessage =
                     (if isRetryable then ''Retryable'' else ''Non-retryable'')
                     @ '' error for '' @ [CHR 0x22] @ aiNameString (aiName p) @ [CHR 0x22]
                     @ '': '' @ orUnknown (case msg of None \<Rightarrow> [] | Some m \<Rightarrow> m),
                   errStatusCode = Some status,
                   errErrorBody = errorObj\<rparr>)
      | Rejects m \<Rightarrow> Inl \<lparr>errMessage = m, errStatusCode = None, errErrorBody = None\<rparr>)"

text \<open>
  \<^verbatim>\<open>createAIError\<close>. The test \<^verbatim>\<open>statusCode ? ... : false\<close> is a truthiness test: an absent
  status code and the status code 0 both give \<^verbatim>\<open>false\<close>.
\<close>

definition createAIError :: "Options \<Rightarrow> Provider \<Rightarrow> ThrownError \<Rightarrow> AIError" where
  "createAIError opts p error =
     (let statusCode = errStatusCode error;
          isRetryable =
            (case statusCode of
               None \<Rightarrow> False
             | Some c \<Rightarrow> if c = 0 then False else c \<in> set (retryableCodes opts))
      in \<lparr>message = orUnknown (errMessage error),
          provider = aiName p,
          statusCode = statusCode,
          retryable = isRetryable,
          errorBody = errErrorBody error\<rparr>)"

subsection \<open>The fallback loop\<close>

text \<open>
  The value \<^verbatim>\<open>call\<close> returns is an object: the payload's properties, each an opaque
  value, then \<^verbatim>\<open>provider\<close>, then \<^verbatim>\<open>errors\<close> when the list is not empty.
\<close>

datatype field = Raw json | ProviderField AIProvider | ErrorsField "AIError list"

type_synonym AIResponse = "string \<rightharpoonup> field"

definition annotate :: "(string \<rightharpoonup> json) \<Rightarrow> AIProvider \<Rightarrow> AIError list \<Rightarrow> AIResponse" where
  "annotate response name errs =
     ((map_option Raw \<circ> response)(''provider'' \<mapsto> ProviderField name))
       ++ (if errs \<noteq> [] then [''errors'' \<mapsto> ErrorsField errs] else Map.empty)"

fun joinWith :: "string \<Rightarrow> string list \<Rightarrow> string" where
  "joinWith sep [] = []"
| "joinWith sep [x] = x"
| "joinWith sep (x # y # ys) = x @ sep @ joinWith sep (y # ys)"

definition allFailedMessage :: "AIError list \<Rightarrow> string" where
  "allFailedMessage errs =
     ''All providers failed. Errors: ''
     @ joinWith '', '' (map (\<lambda>e. aiNameString (provider e) @ '': '' @ message e) errs)"

text \<open>
  What the outside world does during one pass of the loop: the clock read by
  \<^verbatim>\<open>checkAndRecoverPriority\<close>, the outcome of the request, and the clock read in the
  \<^verbatim>\<open>catch\<close> block.
\<close>

record Attempt =
  checkTime :: int
  fetched :: FetchOutcome
  failureTime :: int

text \<open>
  The variables of \<^verbatim>\<open>call\<close>: the store, \<^verbatim>\<open>providersToUpdate\<close>, \<^verbatim>\<open>errors\<close>, and the
  log of the providers a request was sent for.
\<close>

record CallState =
  store :: heap
  providersToUpdate :: "ref list"
  errors :: "AIError list"
  requested :: "ref list"

datatype CallResult = Returned AIResponse | Thrown string

record CallOutcome =
  result :: CallResult
  heapAfter :: heap
  instanceAfter :: FallbackAI
  requests :: "ref list"

text \<open>The body of the \<^verbatim>\<open>try\<close> block after the response has arrived.\<close>

definition onSuccess ::
  "FallbackAI \<Rightarrow> ref \<Rightarrow> (string \<rightharpoonup> json) \<Rightarrow> CallState \<Rightarrow> CallOutcome" where
  "onSuccess ai r response s =
     (let h1 = (if jsNotEqual (originalPriority (store s r)) (priority (store s r))
                then (store s)(r := recoverPriorityOnSuccess (store s r))
                else store s);
          (h2, ps) = (if providersToUpdate s \<noteq> []
                      then updateProviderPriorities h1 (providers ai) (providersToUpdate s)
                      else (h1, providers ai))
      in \<lparr>result = Returned (annotate response (aiName (h2 r)) (errors s)),
          heapAfter = h2, instanceAfter = ai\<lparr>providers := ps\<rparr>, requests = requested s\<rparr>)"

text \<open>The \<^verbatim>\<open>catch\<close> block.\<close>

definition onFailure :: "Options \<Rightarrow> ref \<Rightarrow> ThrownError \<Rightarrow> int \<Rightarrow> CallState \<Rightarrow> CallState" where
  "onFailure opts r error now s =
     (let aiError = createAIError opts (store s r) error
      in s\<lparr>errors := errors s @ [aiError],
           providersToUpdate :=
             (if \<not> retryable aiError \<and> enablePriorityUpdates opts
              then providersToUpdate s @ [r] else providersToUpdate s),
           store := (store s)(r := (store s r)
             \<lparr>lastFailureTime := Some now,
              lastFailureType := Some (if retryable aiError then Retryable else NonRetryable)\<rparr>)\<rparr>)"

text \<open>
  The first statement of the loop body, \<^verbatim>\<open>checkAndRecoverPriority(provider, this.options)\<close>,
  and the sending of the request.
\<close>

definition beforeRequest :: "Options \<Rightarrow> ref \<Rightarrow> int \<Rightarrow> CallState \<Rightarrow> CallState" where
  "beforeRequest opts r now s =
     s\<lparr>store := (store s)(r := checkAndRecoverPriority now (store s r) opts),
       requested := requested s @ [r]\<rparr>"

text \<open>
  The \<^verbatim>\<open>for\<close> loop over \<^verbatim>\<open>this.providers\<close> and the \<^verbatim>\<open>throw\<close> that follows it. \<open>i\<close> is the
  number of the pass, the list argument what is left of the array to visit.
\<close>

fun callLoop ::
  "FallbackAI \<Rightarrow> (nat \<Rightarrow> Attempt) \<Rightarrow> nat \<Rightarrow> ref list \<Rightarrow> CallState \<Rightarrow> CallOutcome" where
  "callLoop ai env i [] s =
     \<lparr>result = Thrown (allFailedMessage (errors s)),
      heapAfter = store s, instanceAfter = ai, requests = requested s\<rparr>"
| "callLoop ai env i (r # rs) s =
     (let s1 = beforeRequest (options ai) r (checkTime (env i)) s
      in case makeProviderCall (options ai) (store s1 r) (fetched (env i)) of
           Inr response \<Rightarrow> onSuccess ai r response s1
         | Inl error \<Rightarrow>
             callLoop ai env (Suc i) rs
               (onFailure (options ai) r error (failureTime (env i)) s1))"

definition call :: "heap \<Rightarrow> FallbackAI \<Rightarrow> (nat \<Rightarrow> Attempt) \<Rightarrow> string \<Rightarrow> CallOutcome" where
  "call h ai env prompt =
     (if prompt = []
      then \<lparr>result = Thrown ''Prompt must be a non-empty string'',
            heapAfter = h, instanceAfter = ai, requests = []\<rparr>
      else callLoop ai env 0 (providers ai)
             \<lparr>store = h, providersToUpdate = [], errors = [], requested = []\<rparr>)"

section \<open>Vocabulary of the properties\<close>

text \<open>
  The list is in ascending order by priority when \<^verbatim>\<open>a.priority <= b.priority\<close> holds for
  every entry \<open>a\<close> and every later entry \<open>b\<close>.
\<close>

definition ascending :: "heap \<Rightarrow> ref list \<Rightarrow> bool" where
  "ascending h rs = sorted_wrt (\<lambda>a b. jsLessEq (priority (h a)) (priority (h b))) rs"

definition numericPriorities :: "heap \<Rightarrow> ref list \<Rightarrow> bool" where
  "numericPriorities h rs = list_all (\<lambda>r. isNumber (priority (h r))) rs"

text \<open>
  Every priority of the list is a safe integer and stays one when the number of providers
  is added to it: the range in which \<^verbatim>\<open>+=\<close> is exact.
\<close>

definition safePriorities :: "heap \<Rightarrow> ref list \<Rightarrow> bool" where
  "safePriorities h rs =
     list_all (\<lambda>r. case priority (h r) of
                      Number x \<Rightarrow> isSafeInteger x \<and> isSafeInteger (x + int (length rs))
                    | _ \<Rightarrow> False) rs"

text \<open>The integer a numeric priority stands for; used as a sorting key in the proofs.\<close>

definition priorityKey :: "heap \<Rightarrow> ref \<Rightarrow> int" where
  "priorityKey h r = (case priority (h r) of Number x \<Rightarrow> x | _ \<Rightarrow> 0)"

text \<open>Both failure fields present, or both absent.\<close>

definition failureFieldsPaired :: "Provider \<Rightarrow> bool" where
  "failureFieldsPaired p \<longleftrightarrow> (lastFailureTime p = None) = (lastFailureType p = None)"

section \<open>Fixtures (index.test.ts)\<close>

text \<open>
  The two mock providers of the test suite, the provider its \<^verbatim>\<open>addProvider\<close> test adds,
  and the mocked responses. Times are milliseconds.
\<close>

definition mockGroq :: Provider where
  "mockGroq = \<lparr>aiName = GROQ, apiKey = ''test-groq-key'', model = ''llama3-8b-8192'',
     priority = Number 1, originalPriority = Undefined, lastFailureTime = None,
     lastFailureType = None, parameters = Some [(''temperature'', JsonText ''0.7'')]\<rparr>"

definition mockGemini :: Provider where
  "mockGemini = \<lparr>aiName = GEMINI, apiKey = ''test-gemini-key'', model = ''gemini-2.0-flash'',
     priority = Number 2, originalPriority = Undefined, lastFailureTime = None,
     lastFailureType = None, parameters = Some [(''temperature'', JsonText ''0.8'')]\<rparr>"

definition newMistral :: Provider where
  "newMistral = \<lparr>aiName = MISTRAL, apiKey = ''test-mistral-key'', model = ''mistral-model'',
     priority = Number 0, originalPriority = Undefined, lastFailureTime = None,
     lastFailureType = None, parameters = None\<rparr>"

definition noOptions :: FallbackAIOptions where
  "noOptions = \<lparr>enablePriorityUpdates_opt = None, timeout_opt = None,
     retryableCodes_opt = None, retryableErrorTimeout_opt = None,
     nonRetryableErrorTimeout_opt = None\<rparr>"

text \<open>A store none of whose cells is referenced yet, and the instance
  \<^verbatim>\<open>new FallbackAI(mockProviders)\<close> builds in it at addresses 0 and 1.\<close>

definition blankHeap :: heap where
  "blankHeap = (\<lambda>r. mockGroq)"

definition testHeap :: heap where
  "testHeap = allocate 0 (map withOriginalPriority [mockGroq, mockGemini]) blankHeap"

definition testAI :: FallbackAI where
  "testAI = \<lparr>providers = [0, 1], options = resolveOptions noOptions\<rparr>"

definition attempt :: "int \<Rightarrow> FetchOutcome \<Rightarrow> Attempt" where
  "attempt t outcome = \<lparr>checkTime = t, fetched = outcome, failureTime = t\<rparr>"

text \<open>\<open>script a b\<close>: the first pass of the loop meets \<open>a\<close>, every later pass \<open>b\<close>.\<close>

fun script :: "Attempt \<Rightarrow> Attempt \<Rightarrow> nat \<Rightarrow> Attempt" where
  "script a b 0 = a"
| "script a b (Suc i) = b"

text \<open>
  The failing mocks answer \<^verbatim>\<open>{ok: false, status, json: () => ({error: {message}})}\<close>:
  the error object is the body, and the message is read from it.
\<close>

definition errorJson :: "string \<Rightarrow> json" where
  \<open>errorJson m = JsonText (''{"error":{"message":"'' @ m @ ''"}}'')\<close>

definition errorResponse :: "int \<Rightarrow> string \<Rightarrow> FetchOutcome" where
  "errorResponse status m = NotOk status (Some m) (Some (errorJson m))"

definition badRequest :: FetchOutcome where
  "badRequest = errorResponse 400 ''Bad request''"

definition unauthorized :: FetchOutcome where
  "unauthorized = errorResponse 401 ''Unauthorized''"

definition rateLimited :: FetchOutcome where
  "rateLimited = errorResponse 429 ''Rate limited''"

text \<open>A non-ok response with status 0 whose body does not parse: the error object is \<^verbatim>\<open>{}\<close>.\<close>

definition statusZero :: FetchOutcome where
  "statusZero = NotOk 0 None (Some (JsonText ''{}''))"



definition helloBody :: "string \<rightharpoonup> json" where
  "helloBody = [''choices'' \<mapsto> JsonText ''Hello'']"

text \<open>The fixture of priority.test.ts: a provider demoted to 10 from 2 by a failure at
  time 1000.\<close>

definition failedGroq :: "FailureType \<Rightarrow> Provider" where
  "failedGroq k = mockGroq\<lparr>priority := Number 10, originalPriority := Number 2,
     lastFailureTime := Some 1000, lastFailureType := Some k\<rparr>"

text \<open>The test instance with gemini's priority moved out to 100.\<close>

definition spreadHeap :: heap where
  "spreadHeap = testHeap(Suc 0 := (testHeap (Suc 0))\<lparr>priority := Number 100\<rparr>)"

text \<open>
  Two calls in a row. In the first, at time 1000, groq answers 400 and gemini succeeds.
  The second comes 1999 seconds later, past the 30 minutes of
  \<^verbatim>\<open>nonRetryableErrorTimeout\<close>: gemini answers 429 and groq succeeds.
\<close>

definition firstCall :: CallOutcome where
  "firstCall = call testHeap testAI
     (script (attempt 1000 badRequest) (attempt 1000 (Ok helloBody))) ''Hello''"

definition secondCall :: CallOutcome where
  "secondCall = call (heapAfter firstCall) (instanceAfter firstCall)
     (script (attempt 2000000 rateLimited) (attempt 2000000 (Ok helloBody))) ''Hello''"

text \<open>Both providers answer with a non-retryable status.\<close>

definition allFailCall :: CallOutcome where
  "allFailCall = call testHeap testAI
     (script (attempt 1000 badRequest) (attempt 1000 unauthorized)) ''Hello''"

text \<open>
  The object the \<^verbatim>\<open>addProvider\<close> test makes, at address 2, added to the test instance.
  Then two calls: at time 1000 mistral answers 429 and groq succeeds; much later mistral
  succeeds.
\<close>

definition heapWithMistral :: heap where
  "heapWithMistral = testHeap(2 := newMistral)"

definition addedAI :: FallbackAI where
  "addedAI = addProvider heapWithMistral testAI 2"

definition mistralFails :: CallOutcome where
  "mistralFails = call heapWithMistral addedAI
     (script (attempt 1000 rateLimited) (attempt 1000 (Ok helloBody))) ''Hello''"

definition mistralLater :: CallOutcome where
  "mistralLater = call (heapAfter mistralFails) (instanceAfter mistralFails)
     (script (attempt 2000000 (Ok helloBody)) (attempt 2000000 (Ok helloBody))) ''Hello''"

text \<open>Groq answers 429 and gemini succeeds; then another call, 1 second or 399 seconds
  after the failure, in which the first provider succeeds.\<close>

definition retryCall :: CallOutcome where
  "retryCall = call testHeap testAI
     (script (attempt 1000 rateLimited) (attempt 1000 (Ok helloBody))) ''Hello''"

definition soonAfter :: "nat \<Rightarrow> Attempt" where
  "soonAfter = script (attempt 2000 (Ok helloBody)) (attempt 2000 (Ok helloBody))"

definition longAfter :: "nat \<Rightarrow> Attempt" where
  "longAfter = script (attempt 400000 (Ok helloBody)) (attempt 400000 (Ok helloBody))"

section \<open>Sorting\<close>

text \<open>
  With numeric priorities the comparator is the difference of two integers, and
  \<^verbatim>\<open>sortProviders\<close> is the stable sort by that integer: the result is a permutation of the
  array in ascending order, entries of equal priority in their former order.
\<close>

lemma isNumber_iff: "isNumber v \<longleftrightarrow> (\<exists>x. v = Number x)"
  by (cases v) auto

lemma sortCompare_numeric:
  "isNumber (priority (h a)) \<Longrightarrow> isNumber (priority (h b)) \<Longrightarrow>
   sortCompare h a b = priorityKey h a - priorityKey h b"
  by (auto simp: sortCompare_def compareFn_def priorityKey_def isNumber_iff)

lemma set_insertProvider: "set (insertProvider h x ys) = insert x (set ys)"
  by (induction ys) auto

lemma set_sortProviders: "set (sortProviders h rs) = set rs"
  by (induction rs) (auto simp: set_insertProvider)

lemma mset_insertProvider: "mset (insertProvider h x ys) = add_mset x (mset ys)"
  by (induction ys) auto

lemma mset_sortProviders: "mset (sortProviders h rs) = mset rs"
  by (induction rs) (auto simp: mset_insertProvider)

lemma insertProvider_insort_key:
  "isNumber (priority (h x)) \<Longrightarrow> numericPriorities h ys \<Longrightarrow>
   insertProvider h x ys = insort_key (priorityKey h) x ys"
  by (induction ys) (auto simp: numericPriorities_def sortCompare_numeric)

lemma numericPriorities_set:
  "numericPriorities h rs \<longleftrightarrow> (\<forall>r\<in>set rs. isNumber (priority (h r)))"
  by (simp add: numericPriorities_def list_all_iff)

lemma sortProviders_sort_key:
  "numericPriorities h rs \<Longrightarrow> sortProviders h rs = sort_key (priorityKey h) rs"
proof (induction rs)
  case Nil
  show ?case by simp
next
  case (Cons x xs)
  then have n: "isNumber (priority (h x))" and ns: "numericPriorities h xs"
    by (simp_all add: numericPriorities_def)
  have "numericPriorities h (sort_key (priorityKey h) xs)"
    using ns by (simp add: numericPriorities_set)
  with Cons.IH n ns show ?case
    by (simp add: insertProvider_insort_key)
qed

lemma jsLessEq_key:
  "isNumber (priority (h a)) \<Longrightarrow> isNumber (priority (h b)) \<Longrightarrow>
   jsLessEq (priority (h a)) (priority (h b)) = (priorityKey h a \<le> priorityKey h b)"
  by (auto simp: isNumber_iff priorityKey_def)

lemma ascending_sorted_key:
  "numericPriorities h rs \<Longrightarrow> ascending h rs \<longleftrightarrow> sorted (map (priorityKey h) rs)"
proof -
  assume n: "numericPriorities h rs"
  have eq: "\<And>a b. a \<in> set rs \<Longrightarrow> b \<in> set rs \<Longrightarrow>
     jsLessEq (priority (h a)) (priority (h b)) = (priorityKey h a \<le> priorityKey h b)"
    using n by (simp add: numericPriorities_set jsLessEq_key)
  have "sorted_wrt (\<lambda>a b. jsLessEq (priority (h a)) (priority (h b))) rs
    = sorted_wrt (\<lambda>a b. priorityKey h a \<le> priorityKey h b) rs"
  proof
    assume "sorted_wrt (\<lambda>a b. jsLessEq (priority (h a)) (priority (h b))) rs"
    then show "sorted_wrt (\<lambda>a b. priorityKey h a \<le> priorityKey h b) rs"
      by (rule sorted_wrt_mono_rel [rotated]) (simp add: eq)
  next
    assume "sorted_wrt (\<lambda>a b. priorityKey h a \<le> priorityKey h b) rs"
    then show "sorted_wrt (\<lambda>a b. jsLessEq (priority (h a)) (priority (h b))) rs"
      by (rule sorted_wrt_mono_rel [rotated]) (simp add: eq)
  qed
  then show ?thesis
    by (simp add: ascending_def sorted_map)
qed

lemma ascending_sortProviders:
  "numericPriorities h rs \<Longrightarrow> ascending h (sortProviders h rs)"
proof -
  assume n: "numericPriorities h rs"
  then have "numericPriorities h (sortProviders h rs)"
    by (simp add: numericPriorities_set set_sortProviders)
  then show ?thesis
    using n by (simp add: ascending_sorted_key sortProviders_sort_key)
qed

lemma ascending_nth:
  assumes "numericPriorities h rs" "ascending h rs" "i < j" "j < length rs"
  shows "priorityKey h (rs ! i) \<le> priorityKey h (rs ! j)"
proof -
  have "sorted (map (priorityKey h) rs)"
    using assms(1,2) by (simp add: ascending_sorted_key)
  then have "map (priorityKey h) rs ! i \<le> map (priorityKey h) rs ! j"
    using assms(3,4) by (simp add: sorted_iff_nth_mono)
  then show ?thesis using assms(3,4) by simp
qed

lemma ascending_position:
  assumes "numericPriorities h rs" "ascending h rs"
    and "i < length rs" "j < length rs"
    and "priorityKey h (rs ! i) < priorityKey h (rs ! j)"
  shows "i < j"
proof (rule ccontr)
  assume "\<not> i < j"
  then have "j < i \<or> j = i" by auto
  then show False
  proof
    assume "j < i"
    have "priorityKey h (rs ! j) \<le> priorityKey h (rs ! i)"
      using assms(1,2) \<open>j < i\<close> assms(3) by (rule ascending_nth)
    then show False using assms(5) by simp
  next
    assume "j = i"
    then show False using assms(5) by simp
  qed
qed

section \<open>Demotion\<close>

lemma addToPriority_other: "x \<noteq> r \<Longrightarrow> addToPriority n r h x = h x"
  by (simp add: addToPriority_def)

lemma raisePriorities_other: "x \<notin> set rs \<Longrightarrow> raisePriorities n rs h x = h x"
  by (induction rs arbitrary: h) (auto simp: addToPriority_other)

lemma raisePriorities_priority_only:
  "\<exists>q. raisePriorities n rs h x = (h x)\<lparr>priority := q\<rparr>"
proof (induction rs arbitrary: h)
  case Nil
  have "h x = (h x)\<lparr>priority := priority (h x)\<rparr>" by simp
  then show ?case by (metis raisePriorities.simps(1))
next
  case (Cons r rs)
  obtain q where "raisePriorities n rs (addToPriority n r h) x = (addToPriority n r h x)\<lparr>priority := q\<rparr>"
    using Cons.IH by blast
  then show ?case
    by (cases "x = r") (auto simp: addToPriority_def)
qed

lemma raisePriorities_distinct:
  "distinct rs \<Longrightarrow> x \<in> set rs \<Longrightarrow>
   priority (raisePriorities n rs h x) = jsPlus (priority (h x)) (int n)"
proof (induction rs arbitrary: h)
  case Nil
  then show ?case by simp
next
  case (Cons r rs)
  show ?case
  proof (cases "x = r")
    case True
    with Cons.prems have "x \<notin> set rs" by simp
    then show ?thesis
      using True by (simp add: raisePriorities_other addToPriority_def)
  next
    case False
    with Cons show ?thesis by (simp add: addToPriority_other)
  qed
qed

lemma raisePriorities_isNumber:
  "isNumber (priority (h x)) \<Longrightarrow> isNumber (priority (raisePriorities n rs h x))"
proof (induction rs arbitrary: h)
  case Nil
  then show ?case by simp
next
  case (Cons r rs)
  have "isNumber (priority (addToPriority n r h x))"
    using Cons.prems by (auto simp: addToPriority_def isNumber_iff)
  then show ?case using Cons.IH by simp
qed

text \<open>
  Within the safe integers the addition is exact; beyond them it rounds, as the code
  does: \<open>2\<^sup>5\<^sup>3 - 1\<close> plus 2 is \<open>2\<^sup>5\<^sup>3\<close>.
\<close>

lemma jsPlus_exact:
  "\<bar>x + n\<bar> \<le> 9007199254740992 \<Longrightarrow> jsPlus (Number x) n = Number (x + n)"
  by (simp add: roundToDouble_def)

lemma jsPlus_safe:
  "isSafeInteger (x + n) \<Longrightarrow> jsPlus (Number x) n = Number (x + n)"
  by (rule jsPlus_exact) (simp add: isSafeInteger_def MAX_SAFE_INTEGER_def)

lemma jsPlus_rounds: "jsPlus (Number 9007199254740991) 2 = Number 9007199254740992"
  by (simp add: roundToDouble_def bitLength.simps Let_def)

lemma safePriorities_set:
  "safePriorities h rs \<longleftrightarrow>
     (\<forall>r\<in>set rs. \<exists>x. priority (h r) = Number x \<and> isSafeInteger x
        \<and> isSafeInteger (x + int (length rs)))"
proof -
  have "(case priority (h r) of
           Number x \<Rightarrow> isSafeInteger x \<and> isSafeInteger (x + int (length rs))
         | _ \<Rightarrow> False)
      = (\<exists>x. priority (h r) = Number x \<and> isSafeInteger x
            \<and> isSafeInteger (x + int (length rs)))" for r
    by (cases "priority (h r)") simp_all
  then show ?thesis
    by (simp add: safePriorities_def list_all_iff)
qed

lemma safePriorities_numeric: "safePriorities h rs \<Longrightarrow> numericPriorities h rs"
  by (auto simp: safePriorities_set numericPriorities_set)

text \<open>
  C4, as stated: after \<^verbatim>\<open>updateProviderPriorities\<close> every demoted provider is ordered
  after every provider not demoted in the same batch, whatever the priorities were. It
  fails with priorities 1 and 100 and two providers: the demoted provider goes from 1 to
  3 and stays first.
\<close>

theorem demote_wide_spread_counterexample:
  "snd (updateProviderPriorities spreadHeap [0, Suc 0] [0]) = [0, Suc 0]
   \<and> priority (fst (updateProviderPriorities spreadHeap [0, Suc 0] [0]) 0) = Number 3
   \<and> priority (fst (updateProviderPriorities spreadHeap [0, Suc 0] [0]) (Suc 0)) = Number 100"
  by (simp add: updateProviderPriorities_def Let_def addToPriority_def sortCompare_def
      compareFn_def spreadHeap_def testHeap_def withOriginalPriority_def mockGroq_def
      mockGemini_def roundToDouble_def)

text \<open>
  C4, amended. Let every priority of the list be a safe integer that stays a safe integer
  when the number of providers is added (magnitude at most \<open>2\<^sup>5\<^sup>3 - 1\<close>, where the
  double arithmetic of \<^verbatim>\<open>+=\<close> is exact), and let \<open>toDemote\<close> be a batch of distinct
  providers of the list. Then \<^verbatim>\<open>updateProviderPriorities\<close> adds the number of providers
  to the priority of each demoted provider, leaves every other object as it was, and
  leaves the array a permutation of itself in ascending order by priority. A demoted
  provider is then
  ordered after every non-demoted provider whose priority is less than the demoted
  provider's old priority plus the number of providers. That is every non-demoted
  provider when any two priorities before the demotion differ by less than the number of
  providers.
\<close>

theorem demote_order:
  assumes safe: "safePriorities h ps"
    and dist: "distinct toDemote"
    and sub: "set toDemote \<subseteq> set ps"
    and upd: "updateProviderPriorities h ps toDemote = (h', ps')"
  shows "(\<forall>d\<in>set toDemote. \<forall>x. priority (h d) = Number x
            \<longrightarrow> priority (h' d) = Number (x + int (length ps)))
    \<and> (\<forall>r. r \<notin> set toDemote \<longrightarrow> h' r = h r)
    \<and> mset ps' = mset ps
    \<and> ascending h' ps'
    \<and> (\<forall>d\<in>set toDemote. \<forall>u\<in>set ps - set toDemote. \<forall>x y.
          priority (h d) = Number x \<and> priority (h u) = Number y \<and> y < x + int (length ps)
          \<longrightarrow> (\<forall>i j. i < length ps' \<and> j < length ps' \<and> ps' ! i = u \<and> ps' ! j = d \<longrightarrow> i < j))
    \<and> ((\<forall>a\<in>set ps. \<forall>b\<in>set ps. \<forall>x y.
          priority (h a) = Number x \<and> priority (h b) = Number y \<longrightarrow> y - x < int (length ps))
        \<longrightarrow> (\<forall>d\<in>set toDemote. \<forall>u\<in>set ps - set toDemote. \<forall>i j.
              i < length ps' \<and> j < length ps' \<and> ps' ! i = u \<and> ps' ! j = d \<longrightarrow> i < j))"
proof -
  have h': "h' = raisePriorities (length ps) toDemote h"
    and ps': "ps' = sortProviders h' ps"
    using upd by (auto simp: updateProviderPriorities_def Let_def)
  have num: "numericPriorities h ps"
    using safe by (rule safePriorities_numeric)
  have raised: "priority (h' d) = Number (x + int (length ps))"
    if d: "d \<in> set toDemote" and x: "priority (h d) = Number x" for d x
  proof -
    have "d \<in> set ps" using d sub by blast
    then have "isSafeInteger (x + int (length ps))"
      using safe x by (auto simp: safePriorities_set)
    then have "jsPlus (Number x) (int (length ps)) = Number (x + int (length ps))"
      by (rule jsPlus_safe)
    then show ?thesis
      using dist d x by (simp add: h' raisePriorities_distinct)
  qed
  have same: "\<forall>r. r \<notin> set toDemote \<longrightarrow> h' r = h r"
    by (simp add: h' raisePriorities_other)
  have num': "numericPriorities h' ps"
    using num by (simp add: numericPriorities_set h' raisePriorities_isNumber)
  have perm: "mset ps' = mset ps"
    by (simp add: ps' mset_sortProviders)
  have asc: "ascending h' ps'"
    using num' by (simp add: ps' ascending_sortProviders)
  have num'': "numericPriorities h' ps'"
    using num' by (simp add: numericPriorities_set ps' set_sortProviders)
  have after: "i < j"
    if d: "d \<in> set toDemote" and u: "u \<in> set ps - set toDemote"
      and x: "priority (h d) = Number x" and y: "priority (h u) = Number y"
      and less: "y < x + int (length ps)"
      and i: "i < length ps'" and j: "j < length ps'"
      and iu: "ps' ! i = u" and jd: "ps' ! j = d"
    for d u x y i j
  proof -
    have "priorityKey h' d = x + int (length ps)"
      using raised [OF d x] by (simp add: priorityKey_def)
    moreover have "priorityKey h' u = y"
      using same u y by (simp add: priorityKey_def)
    ultimately have "priorityKey h' (ps' ! i) < priorityKey h' (ps' ! j)"
      using less iu jd by simp
    with num'' asc i j show ?thesis by (rule ascending_position)
  qed
  have spread: "i < j"
    if sp: "\<forall>a\<in>set ps. \<forall>b\<in>set ps. \<forall>x y.
          priority (h a) = Number x \<and> priority (h b) = Number y \<longrightarrow> y - x < int (length ps)"
      and d: "d \<in> set toDemote" and u: "u \<in> set ps - set toDemote"
      and i: "i < length ps'" and j: "j < length ps'"
      and iu: "ps' ! i = u" and jd: "ps' ! j = d"
    for d u i j
  proof -
    have din: "d \<in> set ps" using d sub by blast
    have uin: "u \<in> set ps" using u by simp
    obtain x where x: "priority (h d) = Number x"
      using num din by (auto simp: numericPriorities_set isNumber_iff)
    obtain y where y: "priority (h u) = Number y"
      using num uin by (auto simp: numericPriorities_set isNumber_iff)
    have "y - x < int (length ps)"
      using sp din uin x y by blast
    then have less: "y < x + int (length ps)" by simp
    show ?thesis by (rule after [OF d u x y less i j iu jd])
  qed
  show ?thesis
    using raised same perm asc after spread by blast
qed

theorem demote_order_witness:
  "safePriorities testHeap [0, Suc 0] \<and> distinct [0::nat]
   \<and> set [0] \<subseteq> set [0, Suc 0]
   \<and> priority (fst (updateProviderPriorities testHeap [0, Suc 0] [0]) 0) = Number 3
   \<and> fst (updateProviderPriorities testHeap [0, Suc 0] [0]) (Suc 0) = testHeap (Suc 0)
   \<and> mset (snd (updateProviderPriorities testHeap [0, Suc 0] [0])) = mset [0, Suc 0]
   \<and> ascending (fst (updateProviderPriorities testHeap [0, Suc 0] [0]))
        (snd (updateProviderPriorities testHeap [0, Suc 0] [0]))"
proof -
  have num: "safePriorities testHeap [0, Suc 0]"
    by (simp add: safePriorities_def isSafeInteger_def MAX_SAFE_INTEGER_def testHeap_def
        withOriginalPriority_def mockGroq_def mockGemini_def)
  have dist: "distinct [0::nat]" by simp
  have sub: "set [0] \<subseteq> set [0, Suc 0]" by simp
  have p0: "priority (testHeap 0) = Number 1"
    by (simp add: testHeap_def withOriginalPriority_def mockGroq_def)
  show ?thesis
    using num dist sub p0
      demote_order [OF num dist sub surjective_pairing]
    by simp
qed

section \<open>Lazy recovery\<close>

text \<open>
  C5. \<^verbatim>\<open>checkAndRecoverPriority\<close> leaves a provider with no recorded failure as it is. For a
  provider with a recorded failure (a timestamp as \<^verbatim>\<open>Date.now()\<close> gives it, hence not 0,
  together with a failure kind) it resets \<^verbatim>\<open>priority\<close> to \<^verbatim>\<open>originalPriority\<close> and clears
  both failure fields exactly when the time elapsed since the timestamp is strictly
  greater than \<^verbatim>\<open>retryableErrorTimeout\<close> (retryable kind) or
  \<^verbatim>\<open>nonRetryableErrorTimeout\<close> (non-retryable kind), and otherwise returns the provider
  unchanged. The guard reads the timestamp through JavaScript truthiness, so a timestamp
  of 0 counts as no recorded failure.
\<close>

theorem checkAndRecoverPriority_spec:
  "(lastFailureTime p = None \<or> lastFailureType p = None
      \<longrightarrow> checkAndRecoverPriority now p opts = p)
   \<and> (lastFailureTime p = Some t \<and> t \<noteq> 0 \<and> lastFailureType p = Some Retryable
      \<longrightarrow> checkAndRecoverPriority now p opts =
          (if now - t > retryableErrorTimeout opts
           then p\<lparr>priority := originalPriority p,
                  lastFailureTime := None, lastFailureType := None\<rparr>
           else p))
   \<and> (lastFailureTime p = Some t \<and> t \<noteq> 0 \<and> lastFailureType p = Some NonRetryable
      \<longrightarrow> checkAndRecoverPriority now p opts =
          (if now - t > nonRetryableErrorTimeout opts
           then p\<lparr>priority := originalPriority p,
                  lastFailureTime := None, lastFailureType := None\<rparr>
           else p))
   \<and> (lastFailureTime p = Some 0 \<longrightarrow> checkAndRecoverPriority now p opts = p)"
  by (auto simp: checkAndRecoverPriority_def resetPriority_def Let_def)

theorem checkAndRecoverPriority_spec_witness:
  "checkAndRecoverPriority 5000 mockGroq (resolveOptions noOptions) = mockGroq
   \<and> checkAndRecoverPriority 301001 (failedGroq Retryable) (resolveOptions noOptions)
       = (failedGroq Retryable)\<lparr>priority := Number 2,
            lastFailureTime := None, lastFailureType := None\<rparr>
   \<and> checkAndRecoverPriority 301000 (failedGroq Retryable) (resolveOptions noOptions)
       = failedGroq Retryable
   \<and> checkAndRecoverPriority 1801001 (failedGroq NonRetryable) (resolveOptions noOptions)
       = (failedGroq NonRetryable)\<lparr>priority := Number 2,
            lastFailureTime := None, lastFailureType := None\<rparr>
   \<and> checkAndRecoverPriority 301001 (failedGroq NonRetryable) (resolveOptions noOptions)
       = failedGroq NonRetryable
   \<and> checkAndRecoverPriority 301001 ((failedGroq Retryable)\<lparr>lastFailureTime := Some 0\<rparr>)
         (resolveOptions noOptions)
       = (failedGroq Retryable)\<lparr>lastFailureTime := Some 0\<rparr>"
  using
    checkAndRecoverPriority_spec
      [where p = mockGroq and now = 5000 and opts = "resolveOptions noOptions"]
    checkAndRecoverPriority_spec
      [where p = "failedGroq Retryable" and t = 1000 and now = 301001
         and opts = "resolveOptions noOptions"]
    checkAndRecoverPriority_spec
      [where p = "failedGroq Retryable" and t = 1000 and now = 301000
         and opts = "resolveOptions noOptions"]
    checkAndRecoverPriority_spec
      [where p = "failedGroq NonRetryable" and t = 1000 and now = 1801001
         and opts = "resolveOptions noOptions"]
    checkAndRecoverPriority_spec
      [where p = "failedGroq NonRetryable" and t = 1000 and now = 301001
         and opts = "resolveOptions noOptions"]
    checkAndRecoverPriority_spec
      [where p = "(failedGroq Retryable)\<lparr>lastFailureTime := Some 0\<rparr>" and now = 301001
         and opts = "resolveOptions noOptions"]
  by (simp add: failedGroq_def mockGroq_def resolveOptions_def noOptions_def)

section \<open>The loop, pass by pass\<close>

lemma store_beforeRequest:
  "store (beforeRequest opts r now s) =
     (store s)(r := checkAndRecoverPriority now (store s r) opts)"
  and providersToUpdate_beforeRequest:
  "providersToUpdate (beforeRequest opts r now s) = providersToUpdate s"
  and errors_beforeRequest: "errors (beforeRequest opts r now s) = errors s"
  and requested_beforeRequest: "requested (beforeRequest opts r now s) = requested s @ [r]"
  by (simp_all add: beforeRequest_def)

lemma store_onFailure:
  "store (onFailure opts r e now s) =
     (store s)(r := (store s r)\<lparr>lastFailureTime := Some now,
        lastFailureType := Some (if retryable (createAIError opts (store s r) e)
                                 then Retryable else NonRetryable)\<rparr>)"
  and providersToUpdate_onFailure:
  "providersToUpdate (onFailure opts r e now s) =
     (if \<not> retryable (createAIError opts (store s r) e) \<and> enablePriorityUpdates opts
      then providersToUpdate s @ [r] else providersToUpdate s)"
  and errors_onFailure:
  "errors (onFailure opts r e now s) = errors s @ [createAIError opts (store s r) e]"
  and requested_onFailure: "requested (onFailure opts r e now s) = requested s"
  by (simp_all add: onFailure_def Let_def)

lemma checkAndRecoverPriority_cases:
  "checkAndRecoverPriority now p opts = p \<or>
   checkAndRecoverPriority now p opts = resetPriority p"
  by (auto simp: checkAndRecoverPriority_def Let_def split: option.splits)

lemma recoverPriorityOnSuccess_cases:
  "recoverPriorityOnSuccess p = p \<or> recoverPriorityOnSuccess p = resetPriority p"
  by (simp add: recoverPriorityOnSuccess_def)


lemma makeProviderCall_Inl:
  "(\<exists>e. makeProviderCall opts p out = Inl e) \<longleftrightarrow> (\<forall>b. out \<noteq> Ok b)"
  by (cases out) (simp_all add: makeProviderCall_def Let_def)

lemma callLoop_Ok:
  "fetched (env i) = Ok body \<Longrightarrow>
   callLoop ai env i (r # rs) s =
     onSuccess ai r body (beforeRequest (options ai) r (checkTime (env i)) s)"
  by (simp add: Let_def makeProviderCall_def)

lemma callLoop_fail:
  "makeProviderCall (options ai)
     (store (beforeRequest (options ai) r (checkTime (env i)) s) r) (fetched (env i)) = Inl e \<Longrightarrow>
   callLoop ai env i (r # rs) s =
     callLoop ai env (Suc i) rs
       (onFailure (options ai) r e (failureTime (env i))
          (beforeRequest (options ai) r (checkTime (env i)) s))"
  by (simp add: Let_def)

lemma paired_reset: "failureFieldsPaired (resetPriority p)"
  by (simp add: failureFieldsPaired_def resetPriority_def)

lemma paired_check:
  "failureFieldsPaired p \<Longrightarrow> failureFieldsPaired (checkAndRecoverPriority now p opts)"
  using checkAndRecoverPriority_cases [of now p opts] by (auto simp: paired_reset)

lemma paired_recover:
  "failureFieldsPaired p \<Longrightarrow> failureFieldsPaired (recoverPriorityOnSuccess p)"
  using recoverPriorityOnSuccess_cases [of p] by (auto simp: paired_reset)

lemma paired_raise:
  "failureFieldsPaired (h x) \<Longrightarrow> failureFieldsPaired (raisePriorities n rs h x)"
  using raisePriorities_priority_only [of n rs h x]
  by (auto simp: failureFieldsPaired_def)

lemma paired_beforeRequest:
  "failureFieldsPaired (store s x) \<Longrightarrow>
   failureFieldsPaired (store (beforeRequest opts r now s) x)"
  by (auto simp: store_beforeRequest paired_check)

lemma paired_onFailure:
  "failureFieldsPaired (store s x) \<Longrightarrow>
   failureFieldsPaired (store (onFailure opts r e now s) x)"
  by (simp add: store_onFailure failureFieldsPaired_def)

lemma heapAfter_onSuccess:
  "heapAfter (onSuccess ai r body s) =
    (let h1 = (if jsNotEqual (originalPriority (store s r)) (priority (store s r))
                then (store s)(r := recoverPriorityOnSuccess (store s r))
                else store s)
     in if providersToUpdate s \<noteq> []
        then raisePriorities (length (providers ai)) (providersToUpdate s) h1 else h1)"
  by (simp add: onSuccess_def updateProviderPriorities_def Let_def)

lemma paired_onSuccess:
  "failureFieldsPaired (store s x) \<Longrightarrow>
   failureFieldsPaired (heapAfter (onSuccess ai r body s) x)"
  by (auto simp: heapAfter_onSuccess Let_def paired_recover intro!: paired_raise)

lemma paired_callLoop:
  "failureFieldsPaired (store s x) \<Longrightarrow>
   failureFieldsPaired (heapAfter (callLoop ai env i rs s) x)"
proof (induction rs arbitrary: i s)
  case Nil
  then show ?case by simp
next
  case (Cons r rs)
  let ?s1 = "beforeRequest (options ai) r (checkTime (env i)) s"
  have p1: "failureFieldsPaired (store ?s1 x)"
    using Cons.prems by (rule paired_beforeRequest)
  show ?case
  proof (cases "makeProviderCall (options ai) (store ?s1 r) (fetched (env i))")
    case (Inl e)
    have "failureFieldsPaired (store (onFailure (options ai) r e (failureTime (env i)) ?s1) x)"
      using p1 by (rule paired_onFailure)
    then show ?thesis
      using Inl Cons.IH by (simp add: Let_def)
  next
    case (Inr body)
    then show ?thesis
      using p1 by (simp add: Let_def paired_onSuccess)
  qed
qed

lemma raisePriorities_lastFailure:
  "lastFailureTime (raisePriorities n rs h x) = lastFailureTime (h x)"
  "lastFailureType (raisePriorities n rs h x) = lastFailureType (h x)"
  "aiName (raisePriorities n rs h x) = aiName (h x)"
  using raisePriorities_priority_only [of n rs h x] by auto

lemma aiName_check: "aiName (checkAndRecoverPriority now p opts) = aiName p"
  using checkAndRecoverPriority_cases [of now p opts] by (auto simp: resetPriority_def)

lemma aiName_recover: "aiName (recoverPriorityOnSuccess p) = aiName p"
  using recoverPriorityOnSuccess_cases [of p] by (auto simp: resetPriority_def)

lemma aiName_beforeRequest:
  "aiName (store (beforeRequest opts r now s) x) = aiName (store s x)"
  by (simp add: store_beforeRequest aiName_check)


lemma aiName_onSuccess:
  "aiName (heapAfter (onSuccess ai r body s) x) = aiName (store s x)"
  by (simp add: heapAfter_onSuccess Let_def raisePriorities_lastFailure aiName_recover)

lemma result_onSuccess:
  "result (onSuccess ai r body s) = Returned (annotate body (aiName (store s r)) (errors s))"
proof -
  have "result (onSuccess ai r body s)
      = Returned (annotate body (aiName (heapAfter (onSuccess ai r body s) r)) (errors s))"
    by (simp add: onSuccess_def Let_def split: prod.splits)
  then show ?thesis by (simp add: aiName_onSuccess)
qed

lemma requests_onSuccess: "requests (onSuccess ai r body s) = requested s"
  by (simp add: onSuccess_def Let_def split: prod.splits)


text \<open>
  What the loop leaves alone: an object that is not among the entries still to visit keeps
  every field but \<^verbatim>\<open>priority\<close>, and keeps that too unless it is queued for demotion.
\<close>

lemma callLoop_frame_fields:
  "x \<notin> set rs \<Longrightarrow> \<exists>q. heapAfter (callLoop ai env i rs s) x = (store s x)\<lparr>priority := q\<rparr>"
proof (induction rs arbitrary: i s)
  case Nil
  have "store s x = (store s x)\<lparr>priority := priority (store s x)\<rparr>" by simp
  then show ?case by (metis callLoop.simps(1) CallOutcome.select_convs(2))
next
  case (Cons r rs)
  then have xr: "x \<noteq> r" and xrs: "x \<notin> set rs" by auto
  let ?s1 = "beforeRequest (options ai) r (checkTime (env i)) s"
  have s1: "store ?s1 x = store s x"
    using xr by (simp add: store_beforeRequest)
  show ?case
  proof (cases "makeProviderCall (options ai) (store ?s1 r) (fetched (env i))")
    case (Inl e)
    let ?s2 = "onFailure (options ai) r e (failureTime (env i)) ?s1"
    have s2: "store ?s2 x = store s x"
      using xr s1 by (simp add: store_onFailure)
    obtain q where "heapAfter (callLoop ai env (Suc i) rs ?s2) x = (store ?s2 x)\<lparr>priority := q\<rparr>"
      using Cons.IH [OF xrs] by blast
    then have "heapAfter (callLoop ai env i (r # rs) s) x = (store s x)\<lparr>priority := q\<rparr>"
      using Inl s2 by (simp add: Let_def)
    then show ?thesis by blast
  next
    case (Inr body)
    let ?h1 = "if jsNotEqual (originalPriority (store ?s1 r)) (priority (store ?s1 r))
               then (store ?s1)(r := recoverPriorityOnSuccess (store ?s1 r)) else store ?s1"
    have h1: "?h1 x = store ?s1 x"
      using xr by simp
    obtain q0 where q0: "raisePriorities (length (providers ai)) (providersToUpdate ?s1) ?h1 x
        = (?h1 x)\<lparr>priority := q0\<rparr>"
      using raisePriorities_priority_only by blast
    have after: "heapAfter (onSuccess ai r body ?s1) x =
        (if providersToUpdate ?s1 \<noteq> []
         then raisePriorities (length (providers ai)) (providersToUpdate ?s1) ?h1 x
         else ?h1 x)"
      by (simp add: heapAfter_onSuccess Let_def)
    obtain q where "heapAfter (onSuccess ai r body ?s1) x = (store ?s1 x)\<lparr>priority := q\<rparr>"
    proof (cases "providersToUpdate ?s1 = []")
      case True
      then have "heapAfter (onSuccess ai r body ?s1) x
          = (store ?s1 x)\<lparr>priority := priority (store ?s1 x)\<rparr>"
        using after h1 by simp
      then show ?thesis by (rule that)
    next
      case False
      then have "heapAfter (onSuccess ai r body ?s1) x = (store ?s1 x)\<lparr>priority := q0\<rparr>"
        using after q0 h1 by simp
      then show ?thesis by (rule that)
    qed
    then have "heapAfter (callLoop ai env i (r # rs) s) x = (store s x)\<lparr>priority := q\<rparr>"
      using Inr s1 by (simp add: Let_def)
    then show ?thesis by blast
  qed
qed

lemma callLoop_frame:
  "x \<notin> set rs \<Longrightarrow> x \<notin> set (providersToUpdate s) \<Longrightarrow>
   heapAfter (callLoop ai env i rs s) x = store s x"
proof (induction rs arbitrary: i s)
  case Nil
  then show ?case by simp
next
  case (Cons r rs)
  then have xr: "x \<noteq> r" and xrs: "x \<notin> set rs" by auto
  let ?s1 = "beforeRequest (options ai) r (checkTime (env i)) s"
  have s1: "store ?s1 x = store s x"
    using xr by (simp add: store_beforeRequest)
  have u1: "x \<notin> set (providersToUpdate ?s1)"
    using Cons.prems by (simp add: providersToUpdate_beforeRequest)
  show ?case
  proof (cases "makeProviderCall (options ai) (store ?s1 r) (fetched (env i))")
    case (Inl e)
    let ?s2 = "onFailure (options ai) r e (failureTime (env i)) ?s1"
    have s2: "store ?s2 x = store s x"
      using xr s1 by (simp add: store_onFailure)
    have u2: "x \<notin> set (providersToUpdate ?s2)"
      using u1 xr by (simp add: providersToUpdate_onFailure)
    have "heapAfter (callLoop ai env (Suc i) rs ?s2) x = store ?s2 x"
      using xrs u2 by (rule Cons.IH)
    then show ?thesis
      using Inl s2 by (simp add: Let_def)
  next
    case (Inr body)
    have "heapAfter (onSuccess ai r body ?s1) x = store ?s1 x"
      using xr u1 by (simp add: heapAfter_onSuccess Let_def raisePriorities_other)
    then show ?thesis
      using Inr s1 by (simp add: Let_def)
  qed
qed

lemma callLoop_failed_prefix:
  "\<forall>j<length pre. \<forall>b. fetched (env (i + j)) \<noteq> Ok b \<Longrightarrow>
   \<exists>s'. callLoop ai env i (pre @ rest) s = callLoop ai env (i + length pre) rest s'
     \<and> (\<forall>x. x \<notin> set pre \<longrightarrow> store s' x = store s x)
     \<and> set (providersToUpdate s') \<subseteq> set (providersToUpdate s) \<union> set pre
     \<and> requested s' = requested s @ pre
     \<and> length (errors s') = length (errors s) + length pre"
proof (induction pre arbitrary: i s)
  case Nil
  show ?case by (rule exI [of _ s]) simp
next
  case (Cons r pre)
  let ?s1 = "beforeRequest (options ai) r (checkTime (env i)) s"
  have "\<forall>b. fetched (env i) \<noteq> Ok b"
    using Cons.prems by force
  then obtain e where e: "makeProviderCall (options ai) (store ?s1 r) (fetched (env i)) = Inl e"
    using makeProviderCall_Inl by blast
  let ?s2 = "onFailure (options ai) r e (failureTime (env i)) ?s1"
  have step: "callLoop ai env i ((r # pre) @ rest) s = callLoop ai env (Suc i) (pre @ rest) ?s2"
    using e by (simp add: Let_def)
  have "\<forall>j<length pre. \<forall>b. fetched (env (Suc i + j)) \<noteq> Ok b"
  proof (intro allI impI)
    fix j b assume "j < length pre"
    then have "Suc j < length (r # pre)" by simp
    then have "fetched (env (i + Suc j)) \<noteq> Ok b" using Cons.prems by blast
    then show "fetched (env (Suc i + j)) \<noteq> Ok b" by simp
  qed
  from Cons.IH [OF this, of ?s2]
  obtain s' where s': "callLoop ai env (Suc i) (pre @ rest) ?s2 = callLoop ai env (Suc i + length pre) rest s'"
      "\<forall>x. x \<notin> set pre \<longrightarrow> store s' x = store ?s2 x"
      "set (providersToUpdate s') \<subseteq> set (providersToUpdate ?s2) \<union> set pre"
      "requested s' = requested ?s2 @ pre"
      "length (errors s') = length (errors ?s2) + length pre"
    by blast
  have a: "callLoop ai env i ((r # pre) @ rest) s = callLoop ai env (i + length (r # pre)) rest s'"
    using step s'(1) by simp
  have b: "\<forall>x. x \<notin> set (r # pre) \<longrightarrow> store s' x = store s x"
    using s'(2) by (simp add: store_onFailure store_beforeRequest)
  have "set (providersToUpdate ?s2) \<subseteq> set (providersToUpdate s) \<union> {r}"
    by (auto simp: providersToUpdate_onFailure providersToUpdate_beforeRequest)
  then have c: "set (providersToUpdate s') \<subseteq> set (providersToUpdate s) \<union> set (r # pre)"
    using s'(3) by auto
  have d: "requested s' = requested s @ (r # pre)"
    using s'(4) by (simp add: requested_onFailure requested_beforeRequest)
  have f: "length (errors s') = length (errors s) + length (r # pre)"
    using s'(5) by (simp add: errors_onFailure errors_beforeRequest)
  show ?case
    using a b c d f by blast
qed


lemma split_at:
  "k < length ps \<Longrightarrow> ps = take k ps @ (ps ! k) # drop (Suc k) ps"
  by (simp add: id_take_nth_drop)

lemma distinct_split:
  assumes "distinct ps" "k < length ps"
  shows "ps ! k \<notin> set (take k ps)" "ps ! k \<notin> set (drop (Suc k) ps)"
proof -
  have "distinct (take k ps @ (ps ! k) # drop (Suc k) ps)"
    using assms split_at [of k ps] by simp
  then show "ps ! k \<notin> set (take k ps)" "ps ! k \<notin> set (drop (Suc k) ps)"
    by auto
qed

text \<open>The state in which the loop reaches entry \<open>k\<close> when every earlier request failed.\<close>

lemma call_reaches:
  assumes prompt: "prompt \<noteq> []"
    and k: "k < length (providers ai)"
    and failed: "\<forall>j<k. \<forall>b. fetched (env j) \<noteq> Ok b"
  shows "\<exists>s. call h ai env prompt
        = callLoop ai env k ((providers ai ! k) # drop (Suc k) (providers ai)) s
     \<and> (\<forall>x. x \<notin> set (take k (providers ai)) \<longrightarrow> store s x = h x)
     \<and> set (providersToUpdate s) \<subseteq> set (take k (providers ai))
     \<and> requested s = take k (providers ai)
     \<and> length (errors s) = k"
proof -
  let ?ps = "providers ai"
  let ?s0 = "\<lparr>store = h, providersToUpdate = [], errors = [], requested = []\<rparr>"
  have len: "length (take k ?ps) = k" using k by simp
  have "\<forall>j<length (take k ?ps). \<forall>b. fetched (env (0 + j)) \<noteq> Ok b"
    using failed len by simp
  from callLoop_failed_prefix [OF this, of ai "(?ps ! k) # drop (Suc k) ?ps" ?s0]
  obtain s where s: "callLoop ai env 0 (take k ?ps @ (?ps ! k) # drop (Suc k) ?ps) ?s0
        = callLoop ai env (0 + length (take k ?ps)) ((?ps ! k) # drop (Suc k) ?ps) s"
      "\<forall>x. x \<notin> set (take k ?ps) \<longrightarrow> store s x = store ?s0 x"
      "set (providersToUpdate s) \<subseteq> set (providersToUpdate ?s0) \<union> set (take k ?ps)"
      "requested s = requested ?s0 @ take k ?ps"
      "length (errors s) = length (errors ?s0) + length (take k ?ps)"
    by blast
  have "call h ai env prompt = callLoop ai env 0 ?ps ?s0"
    using prompt by (simp add: call_def)
  also have "\<dots> = callLoop ai env 0 (take k ?ps @ (?ps ! k) # drop (Suc k) ?ps) ?s0"
    using split_at [OF k] by simp
  also have "\<dots> = callLoop ai env k ((?ps ! k) # drop (Suc k) ?ps) s"
    using s(1) by (simp only: len add_0)
  finally have "call h ai env prompt = callLoop ai env k ((?ps ! k) # drop (Suc k) ?ps) s" .
  then show ?thesis
    using s(2-5) len by auto
qed

section \<open>The fixtures, evaluated\<close>

lemmas eval_defs = call_def Let_def beforeRequest_def onFailure_def onSuccess_def makeProviderCall_def
  createAIError_def checkAndRecoverPriority_def recoverPriorityOnSuccess_def resetPriority_def
  updateProviderPriorities_def addToPriority_def sortCompare_def compareFn_def
  testHeap_def testAI_def resolveOptions_def noOptions_def RETRYABLE_CODES_def
  withOriginalPriority_def mockGroq_def mockGemini_def attempt_def badRequest_def
  unauthorized_def rateLimited_def errorResponse_def orUnknown_def roundToDouble_def

lemma retryCall_after:
  "heapAfter retryCall 0 = (withOriginalPriority mockGroq)
      \<lparr>lastFailureTime := Some 1000, lastFailureType := Some Retryable\<rparr>"
  "heapAfter retryCall (Suc 0) = withOriginalPriority mockGemini"
  "instanceAfter retryCall = testAI"
  by (simp_all add: retryCall_def eval_defs)

lemma firstCall_after:
  "heapAfter firstCall 0 = (withOriginalPriority mockGroq)
      \<lparr>priority := Number 3, lastFailureTime := Some 1000,
       lastFailureType := Some NonRetryable\<rparr>"
  "heapAfter firstCall (Suc 0) = withOriginalPriority mockGemini"
  "instanceAfter firstCall = testAI\<lparr>providers := [Suc 0, 0]\<rparr>"
  by (simp_all add: firstCall_def eval_defs)

lemma addedAI_eq:
  "addedAI = \<lparr>providers = [2, 0, Suc 0], options = resolveOptions noOptions\<rparr>"
  by (simp add: addedAI_def addProvider_def heapWithMistral_def sortCompare_def compareFn_def
      testHeap_def testAI_def withOriginalPriority_def mockGroq_def mockGemini_def
      newMistral_def)

lemma mistralFails_after:
  "heapAfter mistralFails 2 =
     newMistral\<lparr>lastFailureTime := Some 1000, lastFailureType := Some Retryable\<rparr>"
  "instanceAfter mistralFails = addedAI"
  by (simp_all add: mistralFails_def addedAI_eq heapWithMistral_def eval_defs newMistral_def)

section \<open>Failure classification\<close>

text \<open>
  C6. The error \<^verbatim>\<open>makeProviderCall\<close> throws is classified by \<^verbatim>\<open>createAIError\<close> as
  retryable if and only if it carries a status code that is in the configured
  \<^verbatim>\<open>retryableCodes\<close>; a failure with no status code, such as a rejected \<^verbatim>\<open>fetch\<close> (network
  error, abort on timeout), is classified non-retryable. A response that is not
  \<^verbatim>\<open>ok\<close> carries its HTTP status, which is never 0; the code reads the status through
  JavaScript truthiness, so the number 0 would count as no status code.
\<close>

theorem failure_classification:
  assumes "makeProviderCall opts p outcome = Inl e"
  shows "(errStatusCode e \<noteq> Some 0 \<longrightarrow>
            (retryable (createAIError opts q e)
              \<longleftrightarrow> (\<exists>c. errStatusCode e = Some c \<and> c \<in> set (retryableCodes opts))))
    \<and> statusCode (createAIError opts q e) = errStatusCode e
    \<and> (errStatusCode e = None \<longrightarrow> \<not> retryable (createAIError opts q e))
    \<and> (errStatusCode e = Some 0 \<longrightarrow> \<not> retryable (createAIError opts q e))
    \<and> (\<forall>status msg body. outcome = NotOk status msg body \<longrightarrow> errStatusCode e = Some status)
    \<and> (\<forall>m. outcome = Rejects m \<longrightarrow> errStatusCode e = None)"
  using assms
  by (cases outcome) (auto simp: makeProviderCall_def createAIError_def Let_def split: option.splits)

theorem failure_classification_witness:
  \<open>retryable (createAIError (resolveOptions noOptions) mockGroq
       \<lparr>errMessage = ''Retryable error for "groq": Rate limited'',
        errStatusCode = Some 429, errErrorBody = Some (errorJson ''Rate limited'')\<rparr>)
   \<and> \<not> retryable (createAIError (resolveOptions noOptions) mockGroq
       \<lparr>errMessage = ''Non-retryable error for "groq": Bad request'',
        errStatusCode = Some 400, errErrorBody = Some (errorJson ''Bad request'')\<rparr>)
   \<and> \<not> retryable (createAIError (resolveOptions noOptions) mockGroq
       \<lparr>errMessage = ''fetch failed'', errStatusCode = None, errErrorBody = None\<rparr>)
   \<and> \<not> retryable (createAIError (resolveOptions noOptions) mockGroq
       \<lparr>errMessage = ''Non-retryable error for "groq": Unknown error'',
        errStatusCode = Some 0, errErrorBody = Some (JsonText ''{}'')\<rparr>)\<close>
proof -
  let ?o = "resolveOptions noOptions"
  let ?e1 = \<open>\<lparr>errMessage = ''Retryable error for "groq": Rate limited'',
        errStatusCode = Some 429, errErrorBody = Some (errorJson ''Rate limited'')\<rparr>\<close>
  let ?e2 = \<open>\<lparr>errMessage = ''Non-retryable error for "groq": Bad request'',
        errStatusCode = Some 400, errErrorBody = Some (errorJson ''Bad request'')\<rparr>\<close>
  let ?e3 = "\<lparr>errMessage = ''fetch failed'', errStatusCode = None, errErrorBody = None\<rparr>"
  have a1: "makeProviderCall ?o mockGroq rateLimited = Inl ?e1"
    by (simp add: makeProviderCall_def rateLimited_def errorResponse_def resolveOptions_def
        noOptions_def RETRYABLE_CODES_def mockGroq_def orUnknown_def)
  have a2: "makeProviderCall ?o mockGroq badRequest = Inl ?e2"
    by (simp add: makeProviderCall_def badRequest_def errorResponse_def resolveOptions_def
        noOptions_def RETRYABLE_CODES_def mockGroq_def orUnknown_def)
  have a3: "makeProviderCall ?o mockGroq (Rejects ''fetch failed'') = Inl ?e3"
    by (simp add: makeProviderCall_def)
  let ?e4 = \<open>\<lparr>errMessage = ''Non-retryable error for "groq": Unknown error'',
        errStatusCode = Some 0, errErrorBody = Some (JsonText ''{}'')\<rparr>\<close>
  have a4: "makeProviderCall ?o mockGroq statusZero = Inl ?e4"
    by (simp add: makeProviderCall_def statusZero_def resolveOptions_def noOptions_def
        RETRYABLE_CODES_def mockGroq_def orUnknown_def)
  have b4: "errStatusCode ?e4 = Some 0" by simp
  have b1: "errStatusCode ?e1 \<noteq> Some 0" and b2: "errStatusCode ?e2 \<noteq> Some 0"
    and b3: "errStatusCode ?e3 \<noteq> Some 0"
    by simp_all
  show ?thesis
    using b1 b2 b3 b4
      failure_classification [OF a1, of mockGroq]
      failure_classification [OF a2, of mockGroq]
      failure_classification [OF a3, of mockGroq]
      failure_classification [OF a4, of mockGroq]
    by (simp add: resolveOptions_def noOptions_def RETRYABLE_CODES_def)
qed

section \<open>Failures and priorities\<close>

lemma makeProviderCall_aiName:
  "aiName p = aiName q \<Longrightarrow> makeProviderCall opts p outcome = makeProviderCall opts q outcome"
  by (cases outcome) (simp_all add: makeProviderCall_def)

lemma createAIError_aiName:
  "aiName p = aiName q \<Longrightarrow> createAIError opts p e = createAIError opts q e"
  by (simp add: createAIError_def)

text \<open>
  C7. In a call over distinct providers, take the provider \<open>r\<close> visited in pass \<open>k\<close>, whose
  request fails with the error \<open>e\<close>. If \<^verbatim>\<open>createAIError\<close> classifies \<open>e\<close> as retryable, or
  if priority updates are disabled, then at the end of the call \<open>r\<close> is exactly what
  \<^verbatim>\<open>checkAndRecoverPriority\<close> made of it before the request, with the two failure
  fields written: its \<^verbatim>\<open>priority\<close> has not been touched by the failure handling, whatever
  the later passes do. The \<^verbatim>\<open>catch\<close> block itself changes no priority in the store, and
  queues the provider for demotion exactly when the failure is non-retryable and
  priority updates are enabled.
\<close>

theorem retryable_failure_keeps_priority:
  assumes prompt: "prompt \<noteq> []"
    and dist: "distinct (providers ai)"
    and k: "k < length (providers ai)"
    and failed: "\<forall>j<k. \<forall>b. fetched (env j) \<noteq> Ok b"
    and r: "r = providers ai ! k"
    and fk: "makeProviderCall (options ai) (h r) (fetched (env k)) = Inl e"
    and soft: "retryable (createAIError (options ai) (h r) e)
        \<or> \<not> enablePriorityUpdates (options ai)"
  shows "heapAfter (call h ai env prompt) r =
      (checkAndRecoverPriority (checkTime (env k)) (h r) (options ai))
        \<lparr>lastFailureTime := Some (failureTime (env k)),
         lastFailureType := Some (if retryable (createAIError (options ai) (h r) e)
                                  then Retryable else NonRetryable)\<rparr>
    \<and> priority (heapAfter (call h ai env prompt) r) =
        priority (checkAndRecoverPriority (checkTime (env k)) (h r) (options ai))
    \<and> (\<forall>x. priority (store (onFailure opts r' err now s') x) = priority (store s' x))
    \<and> providersToUpdate (onFailure opts r' err now s') =
        (if \<not> retryable (createAIError opts (store s' r') err) \<and> enablePriorityUpdates opts
         then providersToUpdate s' @ [r'] else providersToUpdate s')"
proof -
  let ?ps = "providers ai"
  let ?post = "drop (Suc k) ?ps"
  have rpre: "r \<notin> set (take k ?ps)" and rpost: "r \<notin> set ?post"
    using distinct_split [OF dist k] r by simp_all
  obtain s where s: "call h ai env prompt = callLoop ai env k (r # ?post) s"
      "\<forall>x. x \<notin> set (take k ?ps) \<longrightarrow> store s x = h x"
      "set (providersToUpdate s) \<subseteq> set (take k ?ps)"
    using call_reaches [OF prompt k failed, of h] r by blast
  have sr: "store s r = h r" using s(2) rpre by simp
  let ?s1 = "beforeRequest (options ai) r (checkTime (env k)) s"
  have name: "aiName (store ?s1 r) = aiName (h r)"
    using sr by (simp add: aiName_beforeRequest)
  have e: "makeProviderCall (options ai) (store ?s1 r) (fetched (env k)) = Inl e"
    using fk makeProviderCall_aiName [OF name] by simp
  let ?s2 = "onFailure (options ai) r e (failureTime (env k)) ?s1"
  have ret: "createAIError (options ai) (store ?s1 r) e = createAIError (options ai) (h r) e"
    using name by (rule createAIError_aiName)
  have step: "callLoop ai env k (r # ?post) s = callLoop ai env (Suc k) ?post ?s2"
    using e by (simp add: Let_def)
  have "providersToUpdate ?s2 = providersToUpdate s"
    using soft ret
    by (auto simp: providersToUpdate_onFailure providersToUpdate_beforeRequest)
  then have "r \<notin> set (providersToUpdate ?s2)"
    using s(3) rpre by auto
  with rpost have "heapAfter (callLoop ai env (Suc k) ?post ?s2) r = store ?s2 r"
    by (rule callLoop_frame)
  then have "heapAfter (call h ai env prompt) r = store ?s2 r"
    using s(1) step by simp
  then have cell: "heapAfter (call h ai env prompt) r =
      (checkAndRecoverPriority (checkTime (env k)) (h r) (options ai))
        \<lparr>lastFailureTime := Some (failureTime (env k)),
         lastFailureType := Some (if retryable (createAIError (options ai) (h r) e)
                                  then Retryable else NonRetryable)\<rparr>"
    using ret sr by (simp add: store_onFailure store_beforeRequest)
  then have prio: "priority (heapAfter (call h ai env prompt) r) =
        priority (checkAndRecoverPriority (checkTime (env k)) (h r) (options ai))"
    by simp
  have frame: "\<forall>x. priority (store (onFailure opts r' err now s') x) = priority (store s' x)"
    by (simp add: store_onFailure)
  show ?thesis
    using cell prio frame by (simp add: providersToUpdate_onFailure)
qed

theorem retryable_failure_keeps_priority_witness:
  "distinct (providers testAI)
   \<and> retryable (createAIError (options testAI) (testHeap 0)
        \<lparr>errMessage = ''Retryable error for '' @ [CHR 0x22] @ ''groq'' @ [CHR 0x22]
                        @ '': Rate limited'',
         errStatusCode = Some 429, errErrorBody = Some (errorJson ''Rate limited'')\<rparr>)
   \<and> priority (testHeap 0) = Number 1
   \<and> priority (heapAfter retryCall 0) = Number 1
   \<and> lastFailureType (heapAfter retryCall 0) = Some Retryable
   \<and> lastFailureTime (heapAfter retryCall 0) = Some 1000"
proof -
  define env where "env = script (attempt 1000 rateLimited) (attempt 1000 (Ok helloBody))"
  define e where "e = \<lparr>errMessage = ''Retryable error for '' @ [CHR 0x22] @ ''groq''
                          @ [CHR 0x22] @ '': Rate limited'',
         errStatusCode = Some 429, errErrorBody = Some (errorJson ''Rate limited'')\<rparr>"
  have prompt: "''Hello'' \<noteq> []" by simp
  have dist: "distinct (providers testAI)" by (simp add: testAI_def)
  have k: "0 < length (providers testAI)" by (simp add: testAI_def)
  have failed: "\<forall>j<0. \<forall>b. fetched (env j) \<noteq> Ok b" by simp
  have r: "0 = providers testAI ! 0" by (simp add: testAI_def)
  have fk: "makeProviderCall (options testAI) (testHeap 0) (fetched (env 0)) = Inl e"
    by (simp add: env_def e_def makeProviderCall_def attempt_def rateLimited_def
        errorResponse_def testAI_def
        resolveOptions_def noOptions_def RETRYABLE_CODES_def testHeap_def
        withOriginalPriority_def mockGroq_def orUnknown_def)
  have ret: "retryable (createAIError (options testAI) (testHeap 0) e)"
    by (simp add: e_def createAIError_def testAI_def resolveOptions_def noOptions_def
        RETRYABLE_CODES_def)
  then have soft: "retryable (createAIError (options testAI) (testHeap 0) e)
      \<or> \<not> enablePriorityUpdates (options testAI)" ..
  have p: "priority (testHeap 0) = Number 1"
    by (simp add: testHeap_def withOriginalPriority_def mockGroq_def)
  have chk: "checkAndRecoverPriority (checkTime (env 0)) (testHeap 0) (options testAI) = testHeap 0"
    by (simp add: checkAndRecoverPriority_def testHeap_def withOriginalPriority_def mockGroq_def)
  have rc: "retryCall = call testHeap testAI env ''Hello''"
    by (simp add: retryCall_def env_def)
  have ft: "failureTime (env 0) = 1000"
    by (simp add: env_def attempt_def)
  note inst = retryable_failure_keeps_priority
    [where env = env and k = 0 and r = 0 and h = testHeap and e = e,
      OF prompt dist k failed r fk soft, THEN conjunct1]
  have "heapAfter retryCall 0 = (testHeap 0)
      \<lparr>lastFailureTime := Some 1000, lastFailureType := Some Retryable\<rparr>"
    using inst ret by (simp add: rc chk ft)
  then show ?thesis
    using dist ret p by (simp add: e_def)
qed

section \<open>Successful calls\<close>









section \<open>The failure fields\<close>

lemma allocate_cell:
  "allocate a ps h x = (if a \<le> x \<and> x < a + length ps then ps ! (x - a) else h x)"
proof (induction ps arbitrary: a h)
  case Nil
  show ?case by auto
next
  case (Cons p ps)
  have "allocate a (p # ps) h x = allocate (Suc a) ps (h(a := p)) x"
    by simp
  also have "\<dots> = (if Suc a \<le> x \<and> x < Suc a + length ps then ps ! (x - Suc a)
                     else (h(a := p)) x)"
    by (rule Cons.IH)
  also have "\<dots> = (if a \<le> x \<and> x < a + length (p # ps) then (p # ps) ! (x - a) else h x)"
  proof (cases "x = a")
    case True
    then show ?thesis by simp
  next
    case False
    then show ?thesis by (auto simp: nth_Cons' Suc_diff_le)
  qed
  finally show ?case .
qed

lemma paired_withOriginalPriority:
  "failureFieldsPaired (withOriginalPriority p) = failureFieldsPaired p"
  by (simp add: failureFieldsPaired_def withOriginalPriority_def)

lemma paired_new:
  assumes "\<forall>q\<in>set ps. failureFieldsPaired q" "failureFieldsPaired (h x)"
    and "new_FallbackAI h fresh ps fo = Inr (h', ai')"
  shows "failureFieldsPaired (h' x)"
proof -
  have h': "h' = allocate fresh (map withOriginalPriority ps) h"
    using assms(3) by (auto simp: new_FallbackAI_def Let_def split: if_splits)
  show ?thesis
  proof (cases "fresh \<le> x \<and> x < fresh + length ps")
    case True
    then have idx: "x - fresh < length ps" by arith
    have "h' x = withOriginalPriority (ps ! (x - fresh))"
      using True idx by (simp add: h' allocate_cell)
    moreover have "ps ! (x - fresh) \<in> set ps"
      using idx by simp
    ultimately show ?thesis
      using assms(1) by (simp add: paired_withOriginalPriority)
  next
    case False
    then have "h' x = h x" by (auto simp: h' allocate_cell)
    then show ?thesis using assms(2) by simp
  qed
qed

text \<open>
  C9. Every operation keeps \<^verbatim>\<open>lastFailureTime\<close> and \<^verbatim>\<open>lastFailureType\<close> of every object
  both present or both absent: \<^verbatim>\<open>checkAndRecoverPriority\<close> and
  \<^verbatim>\<open>recoverPriorityOnSuccess\<close>, which clear both whenever they change the provider; the
  \<^verbatim>\<open>catch\<close> block, which sets both; \<^verbatim>\<open>updateProviderPriorities\<close>; a whole \<^verbatim>\<open>call\<close>;
  and the constructor, for providers given with their fields paired. Sorting, adding and
  removing only rearrange the array of references and write to no object.
\<close>

theorem failure_fields_paired:
  "(failureFieldsPaired p \<longrightarrow> failureFieldsPaired (checkAndRecoverPriority now p opts))
   \<and> (checkAndRecoverPriority now p opts \<noteq> p \<longrightarrow>
        lastFailureTime (checkAndRecoverPriority now p opts) = None
        \<and> lastFailureType (checkAndRecoverPriority now p opts) = None)
   \<and> (failureFieldsPaired p \<longrightarrow> failureFieldsPaired (recoverPriorityOnSuccess p))
   \<and> (recoverPriorityOnSuccess p \<noteq> p \<longrightarrow>
        lastFailureTime (recoverPriorityOnSuccess p) = None
        \<and> lastFailureType (recoverPriorityOnSuccess p) = None)
   \<and> lastFailureTime (store (onFailure opts r e now s) r) = Some now
   \<and> lastFailureType (store (onFailure opts r e now s) r) \<noteq> None
   \<and> (failureFieldsPaired (store s x) \<longrightarrow> failureFieldsPaired (store (onFailure opts r e now s) x))
   \<and> (failureFieldsPaired (h x) \<longrightarrow>
        failureFieldsPaired (fst (updateProviderPriorities h ps toDemote) x))
   \<and> (failureFieldsPaired (h x) \<longrightarrow> failureFieldsPaired (heapAfter (call h ai env prompt) x))
   \<and> ((\<forall>q\<in>set given. failureFieldsPaired q) \<and> failureFieldsPaired (h x)
        \<and> new_FallbackAI h fresh given fo = Inr (h', ai') \<longrightarrow> failureFieldsPaired (h' x))"
proof -
  have a: "checkAndRecoverPriority now p opts \<noteq> p \<longrightarrow>
        lastFailureTime (checkAndRecoverPriority now p opts) = None
        \<and> lastFailureType (checkAndRecoverPriority now p opts) = None"
    using checkAndRecoverPriority_cases [of now p opts] by (auto simp: resetPriority_def)
  have b: "recoverPriorityOnSuccess p \<noteq> p \<longrightarrow>
        lastFailureTime (recoverPriorityOnSuccess p) = None
        \<and> lastFailureType (recoverPriorityOnSuccess p) = None"
    using recoverPriorityOnSuccess_cases [of p] by (auto simp: resetPriority_def)
  have c: "lastFailureTime (store (onFailure opts r e now s) r) = Some now
    \<and> lastFailureType (store (onFailure opts r e now s) r) \<noteq> None"
    by (simp add: store_onFailure)
  have d: "failureFieldsPaired (h x) \<longrightarrow>
        failureFieldsPaired (fst (updateProviderPriorities h ps toDemote) x)"
    by (simp add: updateProviderPriorities_def Let_def paired_raise)
  have f: "failureFieldsPaired (h x) \<longrightarrow> failureFieldsPaired (heapAfter (call h ai env prompt) x)"
    by (simp add: call_def paired_callLoop)
  show ?thesis
    using a b c d f paired_check paired_recover paired_onFailure paired_new by blast
qed

theorem failure_fields_paired_witness:
  "failureFieldsPaired (failedGroq NonRetryable)
   \<and> failureFieldsPaired
        (checkAndRecoverPriority 1801001 (failedGroq NonRetryable) (resolveOptions noOptions))
   \<and> lastFailureTime
        (checkAndRecoverPriority 1801001 (failedGroq NonRetryable) (resolveOptions noOptions))
       = None
   \<and> failureFieldsPaired (recoverPriorityOnSuccess (failedGroq NonRetryable))
   \<and> lastFailureType (recoverPriorityOnSuccess (failedGroq NonRetryable)) = None
   \<and> failureFieldsPaired (testHeap 0)
   \<and> failureFieldsPaired (fst (updateProviderPriorities testHeap [0, Suc 0] [0]) 0)
   \<and> failureFieldsPaired (heapAfter firstCall 0)
   \<and> new_FallbackAI blankHeap 0 [mockGroq, mockGemini] noOptions = Inr (testHeap, testAI)"
proof -
  let ?p = "failedGroq NonRetryable"
  let ?o = "resolveOptions noOptions"
  have p: "failureFieldsPaired ?p"
    by (simp add: failureFieldsPaired_def failedGroq_def)
  have c: "checkAndRecoverPriority 1801001 ?p ?o \<noteq> ?p"
    by (simp add: checkAndRecoverPriority_def failedGroq_def resolveOptions_def noOptions_def
        resetPriority_def mockGroq_def)
  have s: "recoverPriorityOnSuccess ?p \<noteq> ?p"
    by (simp add: recoverPriorityOnSuccess_def failedGroq_def resetPriority_def mockGroq_def)
  have blank: "failureFieldsPaired (blankHeap 0)"
    by (simp add: failureFieldsPaired_def blankHeap_def mockGroq_def)
  have given: "\<forall>q\<in>set [mockGroq, mockGemini]. failureFieldsPaired q"
    by (simp add: failureFieldsPaired_def mockGroq_def mockGemini_def)
  have new: "new_FallbackAI blankHeap 0 [mockGroq, mockGemini] noOptions = Inr (testHeap, testAI)"
    by (simp add: new_FallbackAI_def testHeap_def testAI_def upt_rec sortCompare_def
        compareFn_def withOriginalPriority_def mockGroq_def mockGemini_def)
  note inst = failure_fields_paired
    [where p = ?p and now = 1801001 and opts = ?o and h = blankHeap and x = 0
       and given = "[mockGroq, mockGemini]" and fresh = 0 and fo = noOptions
       and h' = testHeap and ai' = testAI]
  have t: "failureFieldsPaired (testHeap 0)"
    using inst p blank given new by blast
  note inst2 = failure_fields_paired
    [where h = testHeap and x = 0 and ps = "[0, Suc 0]" and toDemote = "[0]" and ai = testAI
       and env = "script (attempt 1000 badRequest) (attempt 1000 (Ok helloBody))"
       and prompt = "''Hello''"]
  have "failureFieldsPaired (fst (updateProviderPriorities testHeap [0, Suc 0] [0]) 0)"
    and "failureFieldsPaired (heapAfter firstCall 0)"
    using inst2 t unfolding firstCall_def by blast+
  moreover have "failureFieldsPaired (checkAndRecoverPriority 1801001 ?p ?o)"
    and "lastFailureTime (checkAndRecoverPriority 1801001 ?p ?o) = None"
    and "failureFieldsPaired (recoverPriorityOnSuccess ?p)"
    and "lastFailureType (recoverPriorityOnSuccess ?p) = None"
    using inst p c s by blast+
  ultimately show ?thesis
    using p t new by simp
qed

lemma onSuccess_failure_fields:
  "lastFailureTime (heapAfter (onSuccess ai r body s) r) =
     (if jsNotEqual (originalPriority (store s r)) (priority (store s r))
      then lastFailureTime (recoverPriorityOnSuccess (store s r))
      else lastFailureTime (store s r))"
  "lastFailureType (heapAfter (onSuccess ai r body s) r) =
     (if jsNotEqual (originalPriority (store s r)) (priority (store s r))
      then lastFailureType (recoverPriorityOnSuccess (store s r))
      else lastFailureType (store s r))"
  by (simp_all add: heapAfter_onSuccess Let_def raisePriorities_lastFailure)

text \<open>
  C10. In a call over distinct providers, let the provider \<open>r\<close> visited in pass \<open>k\<close> succeed,
  and let it enter the call with \<^verbatim>\<open>priority\<close> equal to \<^verbatim>\<open>originalPriority\<close> and with a recorded
  failure. If the timeout for that failure has not run out when the pass begins, the
  successful call leaves \<^verbatim>\<open>lastFailureTime\<close> and \<^verbatim>\<open>lastFailureType\<close> as they were:
  \<^verbatim>\<open>recoverPriorityOnSuccess\<close> is not invoked, the two priorities being equal. If the
  timeout has run out, the two fields are cleared, by \<^verbatim>\<open>checkAndRecoverPriority\<close> at
  the start of the pass.
\<close>

theorem success_keeps_failure_fields:
  assumes prompt: "prompt \<noteq> []"
    and dist: "distinct (providers ai)"
    and k: "k < length (providers ai)"
    and failed: "\<forall>j<k. \<forall>b. fetched (env j) \<noteq> Ok b"
    and fk: "fetched (env k) = Ok body"
    and r: "r = providers ai ! k"
    and same: "\<not> jsNotEqual (originalPriority (h r)) (priority (h r))"
    and time: "lastFailureTime (h r) = Some t"
    and type: "lastFailureType (h r) = Some ty"
  shows "(checkTime (env k) - t \<le> (if ty = Retryable then retryableErrorTimeout (options ai)
                                       else nonRetryableErrorTimeout (options ai))
          \<longrightarrow> lastFailureTime (heapAfter (call h ai env prompt) r) = Some t
            \<and> lastFailureType (heapAfter (call h ai env prompt) r) = Some ty)
    \<and> (t \<noteq> 0 \<and> checkTime (env k) - t > (if ty = Retryable then retryableErrorTimeout (options ai)
                                       else nonRetryableErrorTimeout (options ai))
          \<longrightarrow> lastFailureTime (heapAfter (call h ai env prompt) r) = None
            \<and> lastFailureType (heapAfter (call h ai env prompt) r) = None)
    \<and> (\<exists>res. result (call h ai env prompt) = Returned res)
    \<and> requests (call h ai env prompt) = take k (providers ai) @ [r]"
proof -
  let ?ps = "providers ai"
  let ?post = "drop (Suc k) ?ps"
  let ?limit = "if ty = Retryable then retryableErrorTimeout (options ai)
                else nonRetryableErrorTimeout (options ai)"
  have rpre: "r \<notin> set (take k ?ps)"
    using distinct_split [OF dist k] r by simp
  obtain s where s: "call h ai env prompt = callLoop ai env k (r # ?post) s"
      "\<forall>x. x \<notin> set (take k ?ps) \<longrightarrow> store s x = h x"
      "requested s = take k ?ps"
    using call_reaches [OF prompt k failed, of h] r by blast
  have sr: "store s r = h r" using s(2) rpre by simp
  let ?s1 = "beforeRequest (options ai) r (checkTime (env k)) s"
  let ?p = "checkAndRecoverPriority (checkTime (env k)) (h r) (options ai)"
  have c: "call h ai env prompt = onSuccess ai r body ?s1"
    using s(1) fk by (simp add: Let_def makeProviderCall_def)
  have s1r: "store ?s1 r = ?p"
    using sr by (simp add: store_beforeRequest)
  have kept: "lastFailureTime (heapAfter (call h ai env prompt) r) = Some t
            \<and> lastFailureType (heapAfter (call h ai env prompt) r) = Some ty"
    if "checkTime (env k) - t \<le> ?limit"
  proof -
    have "?p = h r"
      using that time type by (auto simp: checkAndRecoverPriority_def Let_def)
    then show ?thesis
      using same time type by (simp add: c onSuccess_failure_fields s1r)
  qed
  have cleared: "lastFailureTime (heapAfter (call h ai env prompt) r) = None
            \<and> lastFailureType (heapAfter (call h ai env prompt) r) = None"
    if "t \<noteq> 0 \<and> checkTime (env k) - t > ?limit"
  proof -
    have "?p = resetPriority (h r)"
      using that time type by (auto simp: checkAndRecoverPriority_def Let_def)
    then show ?thesis
      by (simp add: c onSuccess_failure_fields s1r recoverPriorityOnSuccess_def resetPriority_def)
  qed
  have res: "\<exists>res. result (call h ai env prompt) = Returned res"
    by (simp add: c result_onSuccess)
  have req: "requests (call h ai env prompt) = take k ?ps @ [r]"
    by (simp add: c requests_onSuccess requested_beforeRequest s(3))
  show ?thesis
    using kept cleared res req by blast
qed

theorem success_keeps_failure_fields_witness:
  "lastFailureTime (heapAfter (call (heapAfter retryCall) testAI soonAfter ''Hello'') 0) = Some 1000
   \<and> lastFailureType (heapAfter (call (heapAfter retryCall) testAI soonAfter ''Hello'') 0)
       = Some Retryable
   \<and> lastFailureTime (heapAfter (call (heapAfter retryCall) testAI longAfter ''Hello'') 0) = None
   \<and> lastFailureType (heapAfter (call (heapAfter retryCall) testAI longAfter ''Hello'') 0) = None
   \<and> requests (call (heapAfter retryCall) testAI soonAfter ''Hello'') = [0]"
proof -
  let ?h = "heapAfter retryCall"
  have prompt: "''Hello'' \<noteq> []" by simp
  have dist: "distinct (providers testAI)" by (simp add: testAI_def)
  have k: "0 < length (providers testAI)" by (simp add: testAI_def)
  have failed: "\<forall>j<0. \<forall>b. fetched (soonAfter j) \<noteq> Ok b"
    and failed': "\<forall>j<0. \<forall>b. fetched (longAfter j) \<noteq> Ok b" by simp_all
  have fk: "fetched (soonAfter 0) = Ok helloBody"
    and fk': "fetched (longAfter 0) = Ok helloBody"
    by (simp_all add: soonAfter_def longAfter_def attempt_def)
  have r: "0 = providers testAI ! 0" by (simp add: testAI_def)
  have same: "\<not> jsNotEqual (originalPriority (?h 0)) (priority (?h 0))"
    by (simp add: retryCall_after withOriginalPriority_def mockGroq_def)
  have time: "lastFailureTime (?h 0) = Some 1000"
    and type: "lastFailureType (?h 0) = Some Retryable"
    by (simp_all add: retryCall_after)
  show ?thesis
    using
      success_keeps_failure_fields
        [where env = soonAfter and k = 0 and r = 0 and h = "heapAfter retryCall",
          OF prompt dist k failed fk r same time type]
      success_keeps_failure_fields
        [where env = longAfter and k = 0 and r = 0 and h = "heapAfter retryCall",
          OF prompt dist k failed' fk' r same time type]
    by (simp add: soonAfter_def longAfter_def attempt_def testAI_def resolveOptions_def
        noOptions_def)
qed

section \<open>Where the code departs from the claims\<close>

text \<open>
  The paths that do sort: the constructor, \<^verbatim>\<open>addProvider\<close> and
  \<^verbatim>\<open>updateProviderPriorities\<close> leave the array in ascending order.
\<close>

lemma ascending_new_FallbackAI:
  assumes num: "\<forall>p\<in>set ps. isNumber (priority p)"
    and new: "new_FallbackAI h fresh ps fo = Inr (h', ai)"
  shows "ascending h' (getProviders ai)"
proof -
  let ?refs = "[fresh ..< fresh + length ps]"
  have h': "h' = allocate fresh (map withOriginalPriority ps) h"
    and ai: "providers ai = sortProviders h' ?refs"
    using new by (auto simp: new_FallbackAI_def Let_def split: if_splits)
  have "isNumber (priority (h' x))" if "x \<in> set ?refs" for x
  proof -
    have idx: "x - fresh < length ps" and range: "fresh \<le> x \<and> x < fresh + length ps"
      using that by auto
    have "h' x = withOriginalPriority (ps ! (x - fresh))"
      using range idx by (simp add: h' allocate_cell)
    moreover have "ps ! (x - fresh) \<in> set ps"
      using idx by simp
    ultimately show ?thesis
      using num by (simp add: withOriginalPriority_def)
  qed
  then have "numericPriorities h' ?refs"
    by (simp add: numericPriorities_set)
  then show ?thesis
    by (simp add: getProviders_def ai ascending_sortProviders)
qed

lemma ascending_addProvider:
  "numericPriorities h (providers ai @ [r]) \<Longrightarrow> ascending h (getProviders (addProvider h ai r))"
  by (simp add: addProvider_def getProviders_def ascending_sortProviders)

lemma ascending_updateProviderPriorities:
  assumes "numericPriorities h ps"
  shows "ascending (fst (updateProviderPriorities h ps toDemote))
           (snd (updateProviderPriorities h ps toDemote))"
proof -
  have "numericPriorities (raisePriorities (length ps) toDemote h) ps"
    using assms by (simp add: numericPriorities_set raisePriorities_isNumber)
  then show ?thesis
    by (simp add: updateProviderPriorities_def Let_def ascending_sortProviders)
qed

text \<open>
  C1. The claim: after every scheduler operation the array is in ascending order by
  priority, in particular after \<^verbatim>\<open>checkAndRecoverPriority\<close> has reset a demoted provider.
  The code: neither recovery function sorts, and \<^verbatim>\<open>call\<close> sorts only when it demotes. After
  groq was demoted to 3 by a 400, a call 1999 seconds later in which gemini answers 429
  and groq, reset to 1 by the timeout check, succeeds, returns with the array still
  gemini (2), groq (1).
\<close>

theorem recovery_leaves_list_unsorted:
  "getProviders (instanceAfter secondCall) = [Suc 0, 0]
   \<and> priority (heapAfter secondCall (Suc 0)) = Number 2
   \<and> priority (heapAfter secondCall 0) = Number 1
   \<and> requests secondCall = [Suc 0, 0]
   \<and> \<not> ascending (heapAfter secondCall) (getProviders (instanceAfter secondCall))"
  by (simp add: secondCall_def firstCall_after eval_defs ascending_def getProviders_def)

text \<open>
  C2. The claim: when every provider fails, the queued demotions are applied before the
  aggregate error is thrown. The code: the \<^verbatim>\<open>throw\<close> after the loop is reached with the
  queue unused. With both mock providers answering a non-retryable status and priority
  updates enabled, the call throws the aggregate message, which does name both failures
  in order, and both priorities are what they were, 1 and 2, not 3 and 4.
\<close>

theorem all_fail_skips_demotion:
  \<open>result allFailCall = Thrown ''All providers failed. Errors: groq: Non-retryable error for "groq": Bad request, gemini: Non-retryable error for "gemini": Unauthorized''
   \<and> requests allFailCall = [0, Suc 0]
   \<and> lastFailureType (heapAfter allFailCall 0) = Some NonRetryable
   \<and> lastFailureType (heapAfter allFailCall (Suc 0)) = Some NonRetryable
   \<and> enablePriorityUpdates (options testAI)
   \<and> priority (heapAfter allFailCall 0) = Number 1
   \<and> priority (heapAfter allFailCall (Suc 0)) = Number 2
   \<and> providers (instanceAfter allFailCall) = [0, Suc 0]\<close>
  by (simp add: allFailCall_def eval_defs allFailedMessage_def)

text \<open>
  C3. The claim: \<^verbatim>\<open>addProvider\<close> sets \<^verbatim>\<open>originalPriority\<close> to the priority when it is unset.
  The code: \<^verbatim>\<open>addProvider\<close> pushes the object and sorts; only the constructor fills the
  field in. The provider of the \<^verbatim>\<open>addProvider\<close> test stays without \<^verbatim>\<open>originalPriority\<close>
  in the registry, and once a failure of it has timed out, the reset
  \<^verbatim>\<open>provider.priority = provider.originalPriority!\<close> leaves it without a priority.
\<close>

theorem addProvider_leaves_originalPriority_unset:
  "originalPriority newMistral = Undefined
   \<and> providers (addProvider heapWithMistral testAI 2) = [2, 0, Suc 0]
   \<and> originalPriority (heapWithMistral 2) = Undefined
   \<and> originalPriority (heapWithMistral 0) = Number 1
   \<and> priority (heapAfter mistralFails 2) = Number 0
   \<and> priority (heapAfter mistralLater 2) = Undefined"
  using addedAI_eq
  by (simp add: addedAI_def mistralLater_def mistralFails_after heapWithMistral_def eval_defs
      newMistral_def)

end
